theory Spec2Isabelle
  imports Main "HOL-Library.Sublist"
begin

section \<open>Python values\<close>

subsection \<open>Strings\<close>

text \<open>
  A Python \<open>str\<close> is a sequence of Unicode code points, modelled as a list of naturals.
  The messages of the repository contain code points beyond one byte (the parcel sign is
  U+1F4E6), so the 8-bit \<open>char\<close> of HOL is only used to write the ASCII part of a literal.
\<close>

type_synonym ustring = "nat list"

definition asc :: "string \<Rightarrow> ustring" where
  "asc s = map of_char s"

text \<open>
  \<open>str.lower()\<close>, code point by code point, for ASCII and Latin-1 (every keyword, status
  and phrase of the repository lies there): A-Z and U+00C0-U+00DE without the
  multiplication sign U+00D7 move 32 up. Code points from U+0100 on are left as they are;
  Python's table for them is not part of the repository.
\<close>

definition lower_cp :: "nat \<Rightarrow> nat" where
  "lower_cp c = (if (65 \<le> c \<and> c \<le> 90) \<or> (192 \<le> c \<and> c \<le> 222 \<and> c \<noteq> 215) then c + 32 else c)"

definition str_lower :: "ustring \<Rightarrow> ustring" where
  "str_lower s = map lower_cp s"

text \<open>
  \<open>str.isdigit\<close> on one code point. In ASCII and Latin-1 the digits are 0-9 and the
  superscripts U+00B2, U+00B3, U+00B9. From U+0100 on Python follows the Unicode table
  (the Arabic-Indic digits U+0660-U+0669 and several hundred more); that table is not
  part of the repository, and it is the parameter \<open>uni\<close>: whatever it holds, the functions
  below use it as \<open>str.isdigit\<close> does.
\<close>

definition str_isdigit :: "(nat \<Rightarrow> bool) \<Rightarrow> nat \<Rightarrow> bool" where
  "str_isdigit uni c =
     (if c < 256 then (48 \<le> c \<and> c \<le> 57) \<or> c = 178 \<or> c = 179 \<or> c = 185 else uni c)"

text \<open>
  \<open>needle in hay\<close> on two strings is \<^term>\<open>sublist needle hay\<close>, \<open>s.startswith(p)\<close> is
  \<^term>\<open>prefix p s\<close>. \<open>sep.join(xs)\<close>:
\<close>

fun join :: "ustring \<Rightarrow> ustring list \<Rightarrow> ustring" where
  "join sep [] = []"
| "join sep [x] = x"
| "join sep (x # y # ys) = x @ sep @ join sep (y # ys)"

text \<open>
  \<open>s.replace(old, new)\<close>: every occurrence of \<open>old\<close>, leftmost first, not overlapping. With
  an empty \<open>old\<close> Python puts \<open>new\<close> before every code point and at the end.
\<close>

function replace_from :: "ustring \<Rightarrow> ustring \<Rightarrow> ustring \<Rightarrow> ustring" where
  "replace_from old new [] = []"
| "replace_from old new (c # cs) =
     (if old \<noteq> [] \<and> prefix old (c # cs)
      then new @ replace_from old new (drop (length old) (c # cs))
      else c # replace_from old new cs)"
  by pat_completeness auto
termination
  by (relation "measure (\<lambda>(old, new, s). length s)") auto

definition str_replace :: "ustring \<Rightarrow> ustring \<Rightarrow> ustring \<Rightarrow> ustring" where
  "str_replace s old new =
     (if old = [] then new @ concat (map (\<lambda>c. c # new) s) else replace_from old new s)"

subsection \<open>Decoded JSON\<close>

text \<open>
  What \<open>response.json()\<close> returns: \<open>None\<close>, a bool, a number, a str, a list or a dict. A
  dict is the list of its items, read with \<^const>\<open>map_of\<close>. Numbers are the integers (no
  claim reads a float).
\<close>

datatype json =
    JNull
  | JBool bool
  | JNum int
  | JStr ustring
  | JArr "json list"
  | JObj "(ustring \<times> json) list"

datatype value_error =
    ConfigMissing "ustring list"
  | ApiError json
  | ListError json
  | DetailError json
  | WhatsAppConfigMissing "ustring list"
  | InvalidWhatsAppNumber
  | SendError json

text \<open>
  The exceptions the code can meet. \<open>RequestException n\<close> is a failure of the HTTP library
  (connection, timeout); \<open>n\<close> only tells two of them apart.
\<close>

datatype exn =
    AttributeError
  | TypeError
  | KeyError ustring
  | ZeroDivisionError
  | JSONDecodeError
  | HTTPError
  | RequestException nat
  | ValueError value_error
  | InvalidResponse

text \<open>Truthiness (\<open>if x\<close>, \<open>not x\<close>, \<open>x or y\<close>).\<close>

fun truthy :: "json \<Rightarrow> bool" where
  "truthy JNull = False"
| "truthy (JBool b) = b"
| "truthy (JNum n) = (n \<noteq> 0)"
| "truthy (JStr s) = (s \<noteq> [])"
| "truthy (JArr xs) = (xs \<noteq> [])"
| "truthy (JObj kvs) = (kvs \<noteq> [])"

definition py_or :: "json \<Rightarrow> json \<Rightarrow> json" where
  "py_or a b = (if truthy a then a else b)"

text \<open>\<open>d.get(k, default)\<close>: only a dict has the method.\<close>

fun dict_get :: "json \<Rightarrow> ustring \<Rightarrow> json \<Rightarrow> exn + json" where
  "dict_get (JObj kvs) k d = (case map_of kvs k of Some v \<Rightarrow> Inr v | None \<Rightarrow> Inr d)"
| "dict_get _ k d = Inl AttributeError"

text \<open>\<open>x.lower()\<close>: only a str has the method.\<close>

fun py_lower :: "json \<Rightarrow> exn + ustring" where
  "py_lower (JStr s) = Inr (str_lower s)"
| "py_lower _ = Inl AttributeError"

text \<open>\<open>(d.get(k) or '').lower()\<close>\<close>

definition get_lower :: "json \<Rightarrow> ustring \<Rightarrow> exn + ustring" where
  "get_lower d k =
     (case dict_get d k JNull of
        Inl e \<Rightarrow> Inl e
      | Inr v \<Rightarrow> py_lower (py_or v (JStr [])))"

text \<open>\<open>d.get(k, {}) or {}\<close>\<close>

definition get_dict :: "json \<Rightarrow> ustring \<Rightarrow> exn + json" where
  "get_dict d k =
     (case dict_get d k (JObj []) of
        Inl e \<Rightarrow> Inl e
      | Inr v \<Rightarrow> Inr (py_or v (JObj [])))"

section \<open>CustomsSummary (src/automations/daily-summary/customs_summary.py)\<close>

subsection \<open>check_taxation\<close>

definition CS_customs_keywords :: "ustring list" where
  "CS_customs_keywords =
     [asc ''customs'',
      asc ''taxa'',
      asc ''imposto'',
      asc ''tributa'' @ [231, 227] @ asc ''o'',
      asc ''alf'' @ [226] @ asc ''ndega'',
      asc ''fiscaliza'' @ [231, 227] @ asc ''o'',
      asc ''autoridade competente'']"

definition CS_problem_status :: "ustring list" where
  "CS_problem_status = [asc ''alert'', asc ''expired'', asc ''undelivered'']"

text \<open>\<open>any(keyword in text for keyword in keywords)\<close>\<close>

definition any_keyword_in :: "ustring list \<Rightarrow> ustring \<Rightarrow> bool" where
  "any_keyword_in kws text = list_ex (\<lambda>k. sublist k text) kws"

text \<open>The body of the \<open>try\<close>.\<close>

definition CS_check_taxation_body :: "json \<Rightarrow> exn + bool" where
  "CS_check_taxation_body package =
     (case dict_get package (asc ''track_info'') (JObj []) of
        Inl e \<Rightarrow> Inl e
      | Inr track_info \<Rightarrow>
          if \<not> truthy track_info then Inr False
          else
            (case get_dict track_info (asc ''latest_event'') of
               Inl e \<Rightarrow> Inl e
             | Inr latest_event \<Rightarrow>
            (case get_dict track_info (asc ''latest_status'') of
               Inl e \<Rightarrow> Inl e
             | Inr latest_status \<Rightarrow>
            (case get_lower latest_status (asc ''status'') of
               Inl e \<Rightarrow> Inl e
             | Inr status \<Rightarrow>
            (case get_lower latest_event (asc ''description'') of
               Inl e \<Rightarrow> Inl e
             | Inr event_description \<Rightarrow>
            (case dict_get package (asc ''number'') (JStr (asc ''N/A'')) of
               Inl e \<Rightarrow> Inl e
             | Inr tracking_number \<Rightarrow>
                 if status \<in> set CS_problem_status then Inr True
                 else if any_keyword_in CS_customs_keywords event_description then Inr True
                 else Inr False))))))"

text \<open>
  \<open>except Exception\<close> returns \<open>False\<close>, after a log line that calls \<open>package.get\<close> once
  more: for a package that is no dict that call raises out of the handler.
\<close>

definition CS_check_taxation :: "json \<Rightarrow> exn + bool" where
  "CS_check_taxation package =
     (case CS_check_taxation_body package of
        Inr b \<Rightarrow> Inr b
      | Inl e \<Rightarrow>
          (case dict_get package (asc ''number'') (JStr (asc ''N/A'')) of
             Inl e' \<Rightarrow> Inl e'
           | Inr _ \<Rightarrow> Inr False))"

subsection \<open>translate_event\<close>

text \<open>The dict \<open>translations\<close> of the source (the name is a keyword of Isabelle).\<close>

definition translation_table :: "(ustring \<times> ustring) list" where
  "translation_table =
     [(asc ''Import customs clearance delay'',
       asc ''Atraso no desembara'' @ [231] @ asc ''o aduaneiro''),
      (asc ''Customs duties payment requested'',
       asc ''Pagamento de taxas alfandeg'' @ [225] @ asc ''rias solicitado''),
      (asc ''Package returning to sender'',
       asc ''Pacote retornando ao remetente''),
      (asc ''Carrier note'',
       asc ''Nota da transportadora''),
      (asc ''Awaiting payment'',
       asc ''Aguardando pagamento''),
      (asc ''Devolu'' @ [231, 227] @ asc ''o determinada pela autoridade competente'',
       asc ''Devolu'' @ [231, 227] @ asc ''o determinada pela autoridade competente''),
      (asc ''Import customs retained'',
       asc ''Retido na alf'' @ [226] @ asc ''ndega''),
      (asc ''Import customs clearance complete'',
       asc ''Desembara'' @ [231] @ asc ''o aduaneiro conclu'' @ [237] @ asc ''do''),
      (asc ''Pending customs inspection'',
       asc ''Aguardando inspe'' @ [231, 227] @ asc ''o aduaneira''),
      (asc ''Customs charges due'',
       asc ''Taxas alfandeg'' @ [225] @ asc ''rias pendentes'')]"

text \<open>
  The phrases are replaced one after the other, in the order of the dict. \<open>replace\<close> is a
  method of str: any other event (\<open>None\<close> for a description that is null) raises.
\<close>

fun translate_event :: "json \<Rightarrow> exn + ustring" where
  "translate_event (JStr event) =
     Inr (foldl (\<lambda>translated (eng, pt). str_replace translated eng pt) event translation_table)"
| "translate_event _ = Inl AttributeError"

subsection \<open>format_summary_message\<close>

text \<open>
  \<open>f'{x}'\<close> is \<open>x\<close> itself for a str. For any other value it is Python's own rendering
  (\<open>None\<close>, \<open>12\<close>, \<open>{'a': 1}\<close>), which the functions below take as the parameter \<open>rp\<close>.
\<close>

definition py_str :: "(json \<Rightarrow> ustring) \<Rightarrow> json \<Rightarrow> ustring" where
  "py_str rp v = (case v of JStr s \<Rightarrow> s | _ \<Rightarrow> rp v)"

text \<open>The four local variables the loop fills.\<close>

record groups =
  taxas_pendentes :: "ustring list"
  em_alerta :: "ustring list"
  com_problemas :: "ustring list"
  mensagem_taxa :: "ustring option"

definition no_groups :: groups where
  "no_groups = \<lparr>taxas_pendentes = [], em_alerta = [], com_problemas = [], mensagem_taxa = None\<rparr>"

definition msg_no_pending :: ustring where
  "msg_no_pending = asc ''Nenhum pacote com pend'' @ [234] @ asc ''ncias.''"

definition msg_header :: ustring where
  "msg_header = [128230] @ asc '' *Resumo de Pacotes*'' @ [10]"

definition returning_to_sender :: ustring where
  "returning_to_sender = asc ''retornando ao remetente''"

text \<open>\<open>f'*{tracking_number}*: {event}'\<close> and \<open>f'*{tracking_number}*'\<close>\<close>

definition entry_with_event :: "(json \<Rightarrow> ustring) \<Rightarrow> json \<Rightarrow> ustring \<Rightarrow> ustring" where
  "entry_with_event rp tracking_number event =
     asc ''*'' @ py_str rp tracking_number @ asc ''*: '' @ event"

definition entry_number :: "(json \<Rightarrow> ustring) \<Rightarrow> json \<Rightarrow> ustring" where
  "entry_number rp tracking_number = asc ''*'' @ py_str rp tracking_number @ asc ''*''"

text \<open>
  The part of the loop body after the event is translated: the first test that holds
  decides the group, and a package no test holds for is in none.
\<close>

definition assign_group :: "(json \<Rightarrow> ustring) \<Rightarrow> groups \<Rightarrow> json \<Rightarrow> ustring \<Rightarrow> ustring \<Rightarrow> groups" where
  "assign_group rp g tracking_number status event =
     (if sublist returning_to_sender (str_lower event)
      then g\<lparr>com_problemas := com_problemas g @ [entry_with_event rp tracking_number event]\<rparr>
      else if any_keyword_in CS_customs_keywords (str_lower event)
      then g\<lparr>taxas_pendentes := taxas_pendentes g @ [entry_number rp tracking_number],
             mensagem_taxa :=
               (if mensagem_taxa g = None \<or> mensagem_taxa g = Some []
                then Some event else mensagem_taxa g)\<rparr>
      else if status = asc ''alert''
      then g\<lparr>em_alerta := em_alerta g @ [entry_with_event rp tracking_number event]\<rparr>
      else if status \<in> set [asc ''expired'', asc ''undelivered'']
      then g\<lparr>com_problemas := com_problemas g @ [entry_with_event rp tracking_number event]\<rparr>
      else g)"

text \<open>
  One turn of \<open>for pkg in packages\<close>. Nothing catches an exception here: it leaves
  \<open>format_summary_message\<close>.
\<close>

definition format_step :: "(json \<Rightarrow> ustring) \<Rightarrow> groups \<Rightarrow> json \<Rightarrow> exn + groups" where
  "format_step rp g pkg =
     (if \<not> truthy pkg then Inr g
      else
        (case dict_get pkg (asc ''track_info'') JNull of
           Inl e \<Rightarrow> Inl e
         | Inr track_info \<Rightarrow>
             if \<not> truthy track_info then Inr g
             else
               (case get_dict track_info (asc ''latest_event'') of
                  Inl e \<Rightarrow> Inl e
                | Inr latest_event \<Rightarrow>
               (case get_dict track_info (asc ''latest_status'') of
                  Inl e \<Rightarrow> Inl e
                | Inr latest_status \<Rightarrow>
               (case dict_get pkg (asc ''number'') (JStr (asc ''N/A'')) of
                  Inl e \<Rightarrow> Inl e
                | Inr tracking_number \<Rightarrow>
               (case get_lower latest_status (asc ''status'') of
                  Inl e \<Rightarrow> Inl e
                | Inr status \<Rightarrow>
               (case dict_get latest_event (asc ''description'') (JStr []) of
                  Inl e \<Rightarrow> Inl e
                | Inr description \<Rightarrow>
               (case translate_event description of
                  Inl e \<Rightarrow> Inl e
                | Inr event \<Rightarrow> Inr (assign_group rp g tracking_number status event)))))))))"

fun format_loop :: "(json \<Rightarrow> ustring) \<Rightarrow> groups \<Rightarrow> json list \<Rightarrow> exn + groups" where
  "format_loop rp g [] = Inr g"
| "format_loop rp g (pkg # packages) =
     (case format_step rp g pkg of
        Inl e \<Rightarrow> Inl e
      | Inr g' \<Rightarrow> format_loop rp g' packages)"

text \<open>The message built from the groups after the loop.\<close>

definition render :: "groups \<Rightarrow> ustring" where
  "render g =
     msg_header
     @ (if taxas_pendentes g \<noteq> []
        then [10, 128176] @ asc '' *Taxas Pendentes:*'' @ [10]
             @ join [10] (taxas_pendentes g)
             @ (case mensagem_taxa g of
                  None \<Rightarrow> []
                | Some m \<Rightarrow> if m \<noteq> [] then [10, 10] @ asc ''_Status: '' @ m @ asc ''_'' else [])
        else [])
     @ (if em_alerta g \<noteq> []
        then [10, 10, 9888, 65039] @ asc '' *Em Alerta:*'' @ [10] @ join [10] (em_alerta g)
        else [])
     @ (if com_problemas g \<noteq> []
        then [10, 10, 10060] @ asc '' *Com Problemas:*'' @ [10] @ join [10] (com_problemas g)
        else [])"

definition format_summary_message :: "(json \<Rightarrow> ustring) \<Rightarrow> json list \<Rightarrow> exn + ustring" where
  "format_summary_message rp packages =
     (if packages = [] then Inr msg_no_pending
      else
        (case format_loop rp no_groups packages of
           Inl e \<Rightarrow> Inl e
         | Inr g \<Rightarrow> Inr (render g)))"

subsection \<open>The network\<close>

text \<open>
  A call of the HTTP library (\<open>requests.request\<close>, \<open>requests.post\<close>) with its method,
  URL and JSON body; the headers carry the credentials only and are left out.
\<close>

datatype request = Request (req_method: ustring) (req_url: ustring) (req_json: json)

text \<open>
  What the code reads of an HTTP response: the content-type header (if there is one),
  what \<open>response.json()\<close> returns or raises, whether \<open>raise_for_status()\<close> raises, and
  \<open>response.text\<close>.
\<close>

record response =
  content_type :: "ustring option"
  json_body :: "exn + json"
  status_error :: bool
  body_text :: ustring

text \<open>
  The program's effects, in order: HTTP calls and \<open>time.sleep(seconds)\<close>. The world
  outside is a function from the effects so far (the last one is the call to answer) to
  the outcome of that call: the library raises, or there is a response.
\<close>

datatype event = Http request | Sleep nat

type_synonym server = "event list \<Rightarrow> exn + response"

definition http :: "server \<Rightarrow> request \<Rightarrow> event list \<Rightarrow> (exn + response) \<times> event list" where
  "http srv rq tr = (srv (tr @ [Http rq]), tr @ [Http rq])"

subsection \<open>make_request\<close>

definition max_retries :: nat where
  "max_retries = 3"

definition retry_delay :: nat where
  "retry_delay = 1"

text \<open>What \<open>make_request\<close> returns: the decoded JSON, the text, or nothing (\<open>None\<close>).\<close>

datatype reply = RJson json | RText ustring | RNone

text \<open>The body of the \<open>try\<close> once the library has returned a response.\<close>

definition read_response :: "response \<Rightarrow> exn + reply" where
  "read_response r =
     (if sublist (asc ''application/json'') (case content_type r of None \<Rightarrow> [] | Some ct \<Rightarrow> ct)
      then
        (case json_body r of
           Inl e \<Rightarrow> Inl e
         | Inr data \<Rightarrow>
             (case dict_get data (asc ''error'') JNull of
                Inl e \<Rightarrow> Inl e
              | Inr err \<Rightarrow>
                  if truthy err
                  then (case dict_get data (asc ''message'') JNull of
                          Inl e \<Rightarrow> Inl e
                        | Inr m \<Rightarrow> Inl (ValueError (ApiError m)))
                  else Inr (RJson data)))
      else if status_error r then Inl HTTPError
      else Inr (RText (body_text r)))"

text \<open>
  \<open>for attempt in range(self.max_retries)\<close>, with \<open>n\<close> the number of attempts still to
  make: \<open>attempt = max_retries - n\<close>, and \<open>attempt < max_retries - 1\<close> after a failure
  says that another attempt is left. A loop that runs out (only with no attempt at all)
  returns \<open>None\<close>.
\<close>

fun attempts :: "nat \<Rightarrow> server \<Rightarrow> request \<Rightarrow> event list \<Rightarrow> (exn + reply) \<times> event list" where
  "attempts 0 srv rq tr = (Inr RNone, tr)"
| "attempts (Suc n) srv rq tr =
     (case http srv rq tr of
        (out, tr1) \<Rightarrow>
          (case (case out of Inl e \<Rightarrow> Inl e | Inr r \<Rightarrow> read_response r) of
             Inr data \<Rightarrow> (Inr data, tr1)
           | Inl e \<Rightarrow>
               if 0 < n then attempts n srv rq (tr1 @ [Sleep retry_delay])
               else (Inl e, tr1)))"

definition make_request :: "server \<Rightarrow> request \<Rightarrow> event list \<Rightarrow> (exn + reply) \<times> event list" where
  "make_request srv rq tr = attempts max_retries srv rq tr"

subsection \<open>get_all_packages\<close>

text \<open>\<open>response.get(k, d)\<close> on what \<open>make_request\<close> returned: a str and \<open>None\<close> have no \<open>get\<close>.\<close>

fun reply_get :: "reply \<Rightarrow> ustring \<Rightarrow> json \<Rightarrow> exn + json" where
  "reply_get (RJson j) k d = dict_get j k d"
| "reply_get _ k d = Inl AttributeError"

text \<open>\<open>x != 0\<close>: in Python \<open>False == 0\<close>.\<close>

definition ne_zero :: "json \<Rightarrow> bool" where
  "ne_zero v = (v \<noteq> JNum 0 \<and> v \<noteq> JBool False)"

text \<open>\<open>response.get('data', {}).get('accepted', [])\<close>\<close>

definition accepted_of :: "reply \<Rightarrow> exn + json" where
  "accepted_of rsp =
     (case reply_get rsp (asc ''data'') (JObj []) of
        Inl e \<Rightarrow> Inl e
      | Inr data \<Rightarrow> dict_get data (asc ''accepted'') (JArr []))"

text \<open>
  The elements of a value that \<open>len\<close>, \<open>extend\<close> and \<open>for\<close> accept: those of a list, the
  one-character strings of a str, the keys of a dict (each key is once in the item list).
\<close>

fun py_list :: "json \<Rightarrow> exn + json list" where
  "py_list (JArr xs) = Inr xs"
| "py_list (JStr s) = Inr (map (\<lambda>c. JStr [c]) s)"
| "py_list (JObj kvs) = Inr (map (\<lambda>kv. JStr (fst kv)) kvs)"
| "py_list _ = Inl TypeError"

definition list_request :: "ustring \<Rightarrow> nat \<Rightarrow> request" where
  "list_request url current_page =
     Request (asc ''POST'') url
       (JObj [(asc ''tracking_status'', JStr (asc ''Tracking'')),
              (asc ''page_no'', JNum (int current_page)),
              (asc ''order_by'', JStr (asc ''RegisterTimeDesc''))])"

text \<open>
  \<open>while True\<close>: the loop ends at the first page of fewer than 40 packages, and with a
  provider that never sends one it does not end (the value is then \<open>None\<close>).
\<close>

partial_function (option) get_all_packages_from ::
  "server \<Rightarrow> ustring \<Rightarrow> json list \<Rightarrow> nat \<Rightarrow> event list \<Rightarrow> ((exn + json list) \<times> event list) option" where
  "get_all_packages_from srv url all_packages current_page tr =
     (case make_request srv (list_request url current_page) tr of
        (Inl e, tr1) \<Rightarrow> Some (Inl e, tr1)
      | (Inr rsp, tr1) \<Rightarrow>
          (case reply_get rsp (asc ''code'') JNull of
             Inl e \<Rightarrow> Some (Inl e, tr1)
           | Inr code \<Rightarrow>
               if ne_zero code
               then (case reply_get rsp (asc ''message'') JNull of
                       Inl e \<Rightarrow> Some (Inl e, tr1)
                     | Inr m \<Rightarrow> Some (Inl (ValueError (ListError m)), tr1))
               else
                 (case accepted_of rsp of
                    Inl e \<Rightarrow> Some (Inl e, tr1)
                  | Inr accepted \<Rightarrow>
                      (case py_list accepted of
                         Inl e \<Rightarrow> Some (Inl e, tr1)
                       | Inr packages \<Rightarrow>
                           if length packages < 40
                           then Some (Inr (all_packages @ packages), tr1)
                           else get_all_packages_from srv url (all_packages @ packages)
                                  (current_page + 1) tr1))))"

definition get_all_packages ::
  "server \<Rightarrow> ustring \<Rightarrow> event list \<Rightarrow> ((exn + json list) \<times> event list) option" where
  "get_all_packages srv url tr = get_all_packages_from srv url [] 1 tr"

subsection \<open>get_detailed_packages\<close>

text \<open>\<open>d[k]\<close> with a str key: a missing key of a dict, and any value that is no dict, raise.\<close>

fun dict_item :: "json \<Rightarrow> ustring \<Rightarrow> exn + json" where
  "dict_item (JObj kvs) k = (case map_of kvs k of Some v \<Rightarrow> Inr v | None \<Rightarrow> Inl (KeyError k))"
| "dict_item _ k = Inl TypeError"

text \<open>A comprehension whose element expression can raise: the first exception ends it.\<close>

fun map_exn :: "('a \<Rightarrow> exn + 'b) \<Rightarrow> 'a list \<Rightarrow> exn + 'b list" where
  "map_exn f [] = Inr []"
| "map_exn f (x # xs) =
     (case f x of
        Inl e \<Rightarrow> Inl e
      | Inr y \<Rightarrow> (case map_exn f xs of Inl e \<Rightarrow> Inl e | Inr ys \<Rightarrow> Inr (y # ys)))"

fun filter_exn :: "('a \<Rightarrow> exn + bool) \<Rightarrow> 'a list \<Rightarrow> exn + 'a list" where
  "filter_exn f [] = Inr []"
| "filter_exn f (x # xs) =
     (case f x of
        Inl e \<Rightarrow> Inl e
      | Inr b \<Rightarrow>
          (case filter_exn f xs of
             Inl e \<Rightarrow> Inl e
           | Inr ys \<Rightarrow> Inr (if b then x # ys else ys)))"

definition track_entry :: "json \<Rightarrow> exn + json" where
  "track_entry pkg =
     (case dict_item pkg (asc ''number'') of
        Inl e \<Rightarrow> Inl e
      | Inr n \<Rightarrow>
          (case dict_item pkg (asc ''carrier'') of
             Inl e \<Rightarrow> Inl e
           | Inr c \<Rightarrow> Inr (JObj [(asc ''number'', n), (asc ''carrier'', c)])))"

definition detail_request :: "ustring \<Rightarrow> json list \<Rightarrow> request" where
  "detail_request url track_data = Request (asc ''POST'') url (JArr track_data)"

text \<open>
  \<open>for i in range(0, len(packages), 40)\<close>; the argument \<open>packages\<close> is here the rest
  \<open>packages[i:]\<close>, and the batch is its first 40.
\<close>

function batches ::
  "server \<Rightarrow> ustring \<Rightarrow> json list \<Rightarrow> json list \<Rightarrow> event list \<Rightarrow> (exn + json list) \<times> event list" where
  "batches srv url packages detailed_packages tr =
     (if packages = [] then (Inr detailed_packages, tr)
      else
        (case map_exn track_entry (take 40 packages) of
           Inl e \<Rightarrow> (Inl e, tr)
         | Inr track_data \<Rightarrow>
             (case make_request srv (detail_request url track_data) tr of
                (Inl e, tr1) \<Rightarrow> (Inl e, tr1)
              | (Inr rsp, tr1) \<Rightarrow>
                  (case reply_get rsp (asc ''code'') JNull of
                     Inl e \<Rightarrow> (Inl e, tr1)
                   | Inr code \<Rightarrow>
                       if ne_zero code
                       then (case reply_get rsp (asc ''message'') JNull of
                               Inl e \<Rightarrow> (Inl e, tr1)
                             | Inr m \<Rightarrow> (Inl (ValueError (DetailError m)), tr1))
                       else
                         (case accepted_of rsp of
                            Inl e \<Rightarrow> (Inl e, tr1)
                          | Inr accepted \<Rightarrow>
                              (case py_list accepted of
                                 Inl e \<Rightarrow> (Inl e, tr1)
                               | Inr batch_details \<Rightarrow>
                                   batches srv url (drop 40 packages)
                                     (detailed_packages @ batch_details) tr1))))))"
  by pat_completeness auto
termination
  by (relation "measure (\<lambda>(srv, url, packages, detailed_packages, tr). length packages)") auto

definition get_detailed_packages ::
  "server \<Rightarrow> ustring \<Rightarrow> json list \<Rightarrow> event list \<Rightarrow> (exn + json list) \<times> event list" where
  "get_detailed_packages srv url packages tr =
     (if packages = [] then (Inr [], tr) else batches srv url packages [] tr)"

subsection \<open>get_packages_with_pending_customs\<close>

text \<open>\<open>endpoint\<close> is \<open>self.endpoint\<close>. The \<open>except\<close> logs and raises again.\<close>

definition CS_get_packages_with_pending_customs ::
  "server \<Rightarrow> ustring \<Rightarrow> event list \<Rightarrow> ((exn + json list) \<times> event list) option" where
  "CS_get_packages_with_pending_customs srv endpoint tr =
     (case get_all_packages srv (endpoint @ asc ''/track/v2.2/gettracklist'') tr of
        None \<Rightarrow> None
      | Some (Inl e, tr1) \<Rightarrow> Some (Inl e, tr1)
      | Some (Inr packages, tr1) \<Rightarrow>
          (case get_detailed_packages srv (endpoint @ asc ''/track/v2.2/gettrackinfo'') packages tr1 of
             (Inl e, tr2) \<Rightarrow> Some (Inl e, tr2)
           | (Inr detailed_packages, tr2) \<Rightarrow>
               (case filter_exn CS_check_taxation detailed_packages of
                  Inl e \<Rightarrow> Some (Inl e, tr2)
                | Inr pending_packages \<Rightarrow> Some (Inr pending_packages, tr2))))"

subsection \<open>send_whatsapp_message\<close>

text \<open>The four environment variables \<open>os.getenv\<close> reads.\<close>

record whatsapp_env =
  WAPI_URL :: "ustring option"
  WAPI_TOKEN :: "ustring option"
  WAPI_CONNECTION_KEY :: "ustring option"
  TECHNICAL_DEPT_NUMBER :: "ustring option"

text \<open>\<open>[k for k, v in whatsapp_config.items() if not v]\<close>: unset, or set to the empty string.\<close>

definition missing_config :: "whatsapp_env \<Rightarrow> ustring list" where
  "missing_config env =
     map fst (filter (\<lambda>(k, v). v = None \<or> v = Some [])
       [(asc ''api_url'', WAPI_URL env),
        (asc ''token'', WAPI_TOKEN env),
        (asc ''connection_key'', WAPI_CONNECTION_KEY env),
        (asc ''whatsapp_number'', TECHNICAL_DEPT_NUMBER env)])"

text \<open>The number the message goes to: the digits of the configured one, after 55.\<close>

definition clean_number :: "(nat \<Rightarrow> bool) \<Rightarrow> ustring \<Rightarrow> exn + ustring" where
  "clean_number uni whatsapp_number =
     (let digits = filter (str_isdigit uni) whatsapp_number
      in if digits = [] then Inl (ValueError InvalidWhatsAppNumber)
         else if \<not> prefix (asc ''55'') digits then Inr (asc ''55'' @ digits)
         else Inr digits)"

definition send_request :: "whatsapp_env \<Rightarrow> ustring \<Rightarrow> ustring \<Rightarrow> request" where
  "send_request env number message =
     Request (asc ''POST'')
       (the (WAPI_URL env) @ asc ''/message/sendText?connectionKey='' @ the (WAPI_CONNECTION_KEY env))
       (JObj [(asc ''phoneNumber'', JStr number),
              (asc ''message'', JStr message),
              (asc ''delayMessage'', JStr (asc ''1000''))])"

text \<open>\<open>if response\<close>\<close>

fun reply_truthy :: "reply \<Rightarrow> bool" where
  "reply_truthy (RJson j) = truthy j"
| "reply_truthy (RText s) = (s \<noteq> [])"
| "reply_truthy RNone = False"

text \<open>
  Returns nothing; the \<open>except\<close> logs and raises again. \<^const>\<open>send_request\<close> is built
  only after all four variables are known to be set.
\<close>

definition CS_send_whatsapp_message ::
  "(nat \<Rightarrow> bool) \<Rightarrow> whatsapp_env \<Rightarrow> server \<Rightarrow> ustring \<Rightarrow> event list \<Rightarrow> (exn + unit) \<times> event list" where
  "CS_send_whatsapp_message uni env srv message tr =
     (if missing_config env \<noteq> [] then (Inl (ValueError (WhatsAppConfigMissing (missing_config env))), tr)
      else
        (case clean_number uni (the (TECHNICAL_DEPT_NUMBER env)) of
           Inl e \<Rightarrow> (Inl e, tr)
         | Inr number \<Rightarrow>
             (case make_request srv (send_request env number message) tr of
                (Inl e, tr1) \<Rightarrow> (Inl e, tr1)
              | (Inr rsp, tr1) \<Rightarrow>
                  if reply_truthy rsp
                  then (case reply_get rsp (asc ''error'') JNull of
                          Inl e \<Rightarrow> (Inl e, tr1)
                        | Inr err \<Rightarrow>
                            if truthy err
                            then (case reply_get rsp (asc ''message'') JNull of
                                    Inl e \<Rightarrow> (Inl e, tr1)
                                  | Inr m \<Rightarrow> (Inl (ValueError (SendError m)), tr1))
                            else (Inr (), tr1))
                  else (Inr (), tr1))))"

subsection \<open>generate_daily_summary\<close>

text \<open>
  The result is \<open>packages_count\<close> of the returned dict (\<open>success\<close> is always \<open>True\<close>
  there). The \<open>except\<close> logs and raises again.
\<close>

definition CS_generate_daily_summary ::
  "(json \<Rightarrow> ustring) \<Rightarrow> (nat \<Rightarrow> bool) \<Rightarrow> whatsapp_env \<Rightarrow> server \<Rightarrow> ustring \<Rightarrow> event list \<Rightarrow> ((exn + nat) \<times> event list) option" where
  "CS_generate_daily_summary rp uni env srv endpoint tr =
     (case CS_get_packages_with_pending_customs srv endpoint tr of
        None \<Rightarrow> None
      | Some (Inl e, tr1) \<Rightarrow> Some (Inl e, tr1)
      | Some (Inr packages, tr1) \<Rightarrow>
          if packages \<noteq> []
          then (case format_summary_message rp packages of
                  Inl e \<Rightarrow> Some (Inl e, tr1)
                | Inr message \<Rightarrow>
                    (case CS_send_whatsapp_message uni env srv message tr1 of
                       (Inl e, tr2) \<Rightarrow> Some (Inl e, tr2)
                     | (Inr u, tr2) \<Rightarrow> Some (Inr (length packages), tr2)))
          else Some (Inr (length packages), tr1))"

section \<open>TrackingService (python/tracking_service.py)\<close>

definition TS_customs_status :: "ustring list" where
  "TS_customs_status =
     [asc ''InTransit_CustomsProcessing'',
      asc ''Exception_Security'',
      asc ''DeliveryFailure_Security'',
      asc ''CustomsHold'']"

definition TS_customs_keywords :: "ustring list" where
  "TS_customs_keywords =
     [asc ''customs'',
      asc ''tax'',
      asc ''clearance'',
      asc ''alf'' @ [226] @ asc ''ndega'',
      asc ''taxa'',
      asc ''imposto'',
      asc ''tributa'' @ [231, 227] @ asc ''o'',
      asc ''desembara'' @ [231] @ asc ''o'',
      asc ''declara'' @ [231, 227] @ asc ''o'']"

text \<open>
  \<open>_check_taxation\<close>. \<open>status in self.customs_status\<close> compares the raw field with each
  code: only a str equal to one of them is in the list. The console is taken to print
  every text (\<open>print\<close> does not raise).
\<close>

definition TS_check_taxation :: "json \<Rightarrow> exn + bool" where
  "TS_check_taxation tracking_info =
     (if \<not> truthy tracking_info then Inr False
      else
        (case dict_get tracking_info (asc ''package_status'') (JStr []) of
           Inl e \<Rightarrow> Inl e
         | Inr status \<Rightarrow>
        (case dict_get tracking_info (asc ''latest_event_info'') (JStr []) of
           Inl e \<Rightarrow> Inl e
         | Inr ev \<Rightarrow>
        (case (let latest_event = py_or ev (JStr [])
               in if truthy latest_event then py_lower latest_event else Inr []) of
           Inl e \<Rightarrow> Inl e
         | Inr latest_event \<Rightarrow>
             if status \<in> set (map JStr TS_customs_status) then Inr True
             else if list_ex (\<lambda>keyword. sublist (str_lower keyword) latest_event) TS_customs_keywords
             then Inr True
             else Inr False))))"

subsection \<open>get_packages_with_pending_customs\<close>

definition TS_endpoint :: ustring where
  "TS_endpoint = asc ''api.17track.net''"

definition TS_list_request :: "int \<Rightarrow> request" where
  "TS_list_request page =
     Request (asc ''POST'') (asc ''https://'' @ TS_endpoint @ asc ''/track/v2.2/gettracklist'')
       (JObj [(asc ''tracking_status'', JStr (asc ''Tracking'')),
              (asc ''page_size'', JNum 40),
              (asc ''page_no'', JNum page)])"

text \<open>
  \<open>k in x\<close> for a str \<open>k\<close>: a key of a dict, an element of a list, a part of a str; any
  other \<open>x\<close> is not iterable.
\<close>

fun py_in :: "ustring \<Rightarrow> json \<Rightarrow> exn + bool" where
  "py_in k (JObj kvs) = Inr (map_of kvs k \<noteq> None)"
| "py_in k (JArr xs) = Inr (JStr k \<in> set xs)"
| "py_in k (JStr s) = Inr (sublist k s)"
| "py_in k _ = Inl TypeError"

text \<open>The test before \<open>raise Exception\<close> (an invalid response), its parts from left to right.\<close>

definition TS_check_response :: "json \<Rightarrow> exn + unit" where
  "TS_check_response response_data =
     (if \<not> truthy response_data then Inl InvalidResponse
      else
        (case dict_get response_data (asc ''code'') JNull of
           Inl e \<Rightarrow> Inl e
         | Inr code \<Rightarrow>
             if ne_zero code then Inl InvalidResponse
             else
               (case py_in (asc ''data'') response_data of
                  Inl e \<Rightarrow> Inl e
                | Inr has_data \<Rightarrow>
                    if \<not> has_data then Inl InvalidResponse
                    else
                      (case dict_item response_data (asc ''data'') of
                         Inl e \<Rightarrow> Inl e
                       | Inr data \<Rightarrow>
                           (case py_in (asc ''accepted'') data of
                              Inl e \<Rightarrow> Inl e
                            | Inr has_accepted \<Rightarrow>
                                if \<not> has_accepted then Inl InvalidResponse else Inr ())))))"

text \<open>A value in integer arithmetic: a number, or a bool (\<open>True\<close> is 1).\<close>

fun py_int :: "json \<Rightarrow> exn + int" where
  "py_int (JNum n) = Inr n"
| "py_int (JBool b) = Inr (if b then 1 else 0)"
| "py_int _ = Inl TypeError"

text \<open>
  \<open>total_pages\<close> after the first response: \<open>(total_items + page_size - 1) // page_size\<close>
  when the response has a \<open>page\<close> entry, unchanged otherwise. Python's \<open>//\<close> on integers
  is the flooring \<open>div\<close>.
\<close>

definition TS_total_pages :: "json \<Rightarrow> int \<Rightarrow> exn + int" where
  "TS_total_pages response_data total_pages =
     (case py_in (asc ''page'') response_data of
        Inl e \<Rightarrow> Inl e
      | Inr has_page \<Rightarrow>
          if \<not> has_page then Inr total_pages
          else
            (case dict_item response_data (asc ''page'') of
               Inl e \<Rightarrow> Inl e
             | Inr pg \<Rightarrow>
            (case dict_get pg (asc ''data_total'') (JNum 0) of
               Inl e \<Rightarrow> Inl e
             | Inr total_items \<Rightarrow>
            (case dict_get pg (asc ''page_size'') (JNum 40) of
               Inl e \<Rightarrow> Inl e
             | Inr page_size \<Rightarrow>
            (case py_int total_items of
               Inl e \<Rightarrow> Inl e
             | Inr ti \<Rightarrow>
            (case py_int page_size of
               Inl e \<Rightarrow> Inl e
             | Inr ps \<Rightarrow>
                 if ps = 0 then Inl ZeroDivisionError
                 else Inr ((ti + ps - 1) div ps)))))))"

text \<open>The dict \<open>package_info\<close> of an item.\<close>

fun TS_package_info :: "json \<Rightarrow> exn + json" where
  "TS_package_info (JObj kvs) =
     (case map_of kvs (asc ''number'') of
        None \<Rightarrow> Inl (KeyError (asc ''number''))
      | Some n \<Rightarrow>
          Inr (JObj
            [(asc ''tracking_number'', n),
             (asc ''status'', case_option (JStr (asc ''Unknown'')) id (map_of kvs (asc ''package_status''))),
             (asc ''latest_event'', case_option (JStr []) id (map_of kvs (asc ''latest_event_info''))),
             (asc ''shipping_country'', case_option (JStr []) id (map_of kvs (asc ''shipping_country''))),
             (asc ''recipient_country'', case_option (JStr []) id (map_of kvs (asc ''recipient_country''))),
             (asc ''days_in_transit'', case_option JNull id (map_of kvs (asc ''days_of_transit''))),
             (asc ''days_since_update'', case_option JNull id (map_of kvs (asc ''days_after_last_update'')))]))"
| "TS_package_info _ = Inl TypeError"

text \<open>\<open>for item in response_data['data']['accepted']\<close>: what the page adds to \<open>pending_packages\<close>.\<close>

fun TS_collect :: "json list \<Rightarrow> exn + json list" where
  "TS_collect [] = Inr []"
| "TS_collect (item # items) =
     (case TS_check_taxation item of
        Inl e \<Rightarrow> Inl e
      | Inr taxed \<Rightarrow>
          if taxed
          then (case TS_package_info item of
                  Inl e \<Rightarrow> Inl e
                | Inr package_info \<Rightarrow>
                    (case TS_collect items of
                       Inl e \<Rightarrow> Inl e
                     | Inr rest \<Rightarrow> Inr (package_info # rest)))
          else TS_collect items)"

text \<open>One turn of the \<open>while\<close> after the request: the new \<open>total_pages\<close> and the packages added.\<close>

definition TS_page :: "int \<Rightarrow> int \<Rightarrow> exn + response \<Rightarrow> exn + (int \<times> json list)" where
  "TS_page page total_pages out =
     (case out of
        Inl e \<Rightarrow> Inl e
      | Inr r \<Rightarrow>
     (case json_body r of
        Inl e \<Rightarrow> Inl e
      | Inr response_data \<Rightarrow>
     (case TS_check_response response_data of
        Inl e \<Rightarrow> Inl e
      | Inr u \<Rightarrow>
     (case (if page = 1 then TS_total_pages response_data total_pages else Inr total_pages) of
        Inl e \<Rightarrow> Inl e
      | Inr total_pages' \<Rightarrow>
     (case dict_item response_data (asc ''data'') of
        Inl e \<Rightarrow> Inl e
      | Inr data \<Rightarrow>
     (case dict_item data (asc ''accepted'') of
        Inl e \<Rightarrow> Inl e
      | Inr accepted \<Rightarrow>
     (case py_list accepted of
        Inl e \<Rightarrow> Inl e
      | Inr items \<Rightarrow>
     (case TS_collect items of
        Inl e \<Rightarrow> Inl e
      | Inr found \<Rightarrow> Inr (total_pages', found)))))))))"

text \<open>
  \<open>while page <= total_pages\<close>. Only the first page can change \<open>total_pages\<close>, so the
  loop ends. The \<open>except\<close> prints and raises again.
\<close>

function TS_pages ::
  "server \<Rightarrow> json list \<Rightarrow> int \<Rightarrow> int \<Rightarrow> event list \<Rightarrow> (exn + json list) \<times> event list" where
  "TS_pages srv pending_packages page total_pages tr =
     (if page \<le> total_pages
      then
        (case http srv (TS_list_request page) tr of
           (out, tr1) \<Rightarrow>
             (case TS_page page total_pages out of
                Inl e \<Rightarrow> (Inl e, tr1)
              | Inr (total_pages', found) \<Rightarrow>
                  TS_pages srv (pending_packages @ found) (page + 1) total_pages' tr1))
      else (Inr pending_packages, tr))"
  by pat_completeness auto
termination
proof (relation "measures [\<lambda>(srv, pending, page, total, tr). nat (2 - page),
                           \<lambda>(srv, pending, page, total, tr). nat (total + 1 - page)]", goal_cases)
  case 1
  show ?case by simp
next
  case prems: 2
  show ?case
    using prems by (auto simp: TS_page_def split: sum.splits if_splits)
qed

definition TS_get_packages_with_pending_customs ::
  "server \<Rightarrow> event list \<Rightarrow> (exn + json list) \<times> event list" where
  "TS_get_packages_with_pending_customs srv tr = TS_pages srv [] 1 1 tr"

section \<open>WhatsAppService (python/whatsapp_service.py)\<close>

text \<open>The entries of \<open>self.config\<close> that \<open>send_message\<close> reads.\<close>

record wa_config =
  apiUrl :: ustring
  connectionKey :: ustring
  token :: ustring

definition WA_send_request :: "wa_config \<Rightarrow> ustring \<Rightarrow> ustring \<Rightarrow> request" where
  "WA_send_request cfg phone_number message =
     Request (asc ''POST'')
       (apiUrl cfg @ asc ''/message/send-text?connectionKey='' @ connectionKey cfg)
       (JObj [(asc ''phoneNumber'', JStr phone_number),
              (asc ''text'', JStr message),
              (asc ''delayMessage'', JStr (asc ''3''))])"

text \<open>\<open>x == False\<close>: in Python \<open>0 == False\<close>.\<close>

definition eq_False :: "json \<Rightarrow> bool" where
  "eq_False v = (v = JBool False \<or> v = JNum 0)"

text \<open>
  \<open>send_message\<close>: one \<open>requests.post\<close>; every exception is caught and gives \<open>False\<close>; a
  success is followed by \<open>time.sleep(3)\<close>.
\<close>

definition WA_send_message ::
  "wa_config \<Rightarrow> server \<Rightarrow> ustring \<Rightarrow> ustring \<Rightarrow> event list \<Rightarrow> bool \<times> event list" where
  "WA_send_message cfg srv phone_number message tr =
     (case http srv (WA_send_request cfg phone_number message) tr of
        (Inl e, tr1) \<Rightarrow> (False, tr1)
      | (Inr r, tr1) \<Rightarrow>
          (case json_body r of
             Inl e \<Rightarrow> (False, tr1)
           | Inr response_data \<Rightarrow>
               if truthy response_data
               then (case dict_get response_data (asc ''error'') JNull of
                       Inl e \<Rightarrow> (False, tr1)
                     | Inr err \<Rightarrow>
                         if eq_False err then (True, tr1 @ [Sleep 3]) else (False, tr1))
               else (False, tr1)))"

section \<open>The daily job of python/customs_summary.py\<close>

definition PY_no_pending_message :: ustring where
  "PY_no_pending_message =
     asc ''Resumo Di'' @ [225] @ asc ''rio de Taxas Pendentes'' @ [10, 10]
     @ asc ''Nenhum pacote aguardando pagamento de taxa na alf'' @ [226] @ asc ''ndega.''"

definition PY_error_message :: ustring where
  "PY_error_message =
     asc ''Erro ao gerar resumo di'' @ [225]
     @ asc ''rio de taxas pendentes. Por favor, verifique o sistema.''"

text \<open>\<open>f'{n}'\<close> for a length: the decimal digits.\<close>

fun nat_str :: "nat \<Rightarrow> ustring" where
  "nat_str n = (if n < 10 then [48 + n] else nat_str (n div 10) @ [48 + n mod 10])"

text \<open>\<open>sep.join(xs)\<close> on values: every one of them has to be a str.\<close>

fun strs :: "json list \<Rightarrow> exn + ustring list" where
  "strs [] = Inr []"
| "strs (JStr s # xs) = (case strs xs of Inl e \<Rightarrow> Inl e | Inr ys \<Rightarrow> Inr (s # ys))"
| "strs (_ # xs) = Inl TypeError"

definition PY_summary_message :: "json list \<Rightarrow> exn + ustring" where
  "PY_summary_message pending_packages =
     (case map_exn (\<lambda>pkg. dict_item pkg (asc ''tracking_number'')) pending_packages of
        Inl e \<Rightarrow> Inl e
      | Inr tracking_codes \<Rightarrow>
          (case strs tracking_codes of
             Inl e \<Rightarrow> Inl e
           | Inr codes \<Rightarrow>
               Inr (asc ''Resumo Di'' @ [225] @ asc ''rio de Taxas Pendentes'' @ [10, 10]
                    @ asc ''Total de pacotes aguardando pagamento: ''
                    @ nat_str (length tracking_codes) @ [10, 10]
                    @ asc ''C'' @ [243] @ asc ''digos de rastreamento:'' @ [10]
                    @ join [10] codes)))"

text \<open>
  \<open>generate_daily_summary\<close>. The parameter \<open>send\<close> is the awaited call
  \<open>self.whatsapp_service.send_message(message)\<close>, with the one argument the job passes.
  The handler has no \<open>raise\<close>: what leaves it is what its own call of \<open>send\<close> raises.
\<close>

definition PY_generate_daily_summary ::
  "(ustring \<Rightarrow> event list \<Rightarrow> (exn + unit) \<times> event list) \<Rightarrow> server \<Rightarrow> event list
   \<Rightarrow> (exn + unit) \<times> event list" where
  "PY_generate_daily_summary send srv tr =
     (case
        (case TS_get_packages_with_pending_customs srv tr of
           (Inl e, tr1) \<Rightarrow> (Inl e, tr1)
         | (Inr pending_packages, tr1) \<Rightarrow>
             if pending_packages = [] then send PY_no_pending_message tr1
             else
               (case PY_summary_message pending_packages of
                  Inl e \<Rightarrow> (Inl e, tr1)
                | Inr message \<Rightarrow> send message tr1))
      of
        (Inl e, tr2) \<Rightarrow> send PY_error_message tr2
      | (Inr u, tr2) \<Rightarrow> (Inr (), tr2))"

text \<open>
  \<open>send_message\<close> is declared as \<open>send_message(self, phone_number, message)\<close>. Called
  with one argument it raises \<open>TypeError\<close> before its body runs, and nothing is sent.
\<close>

definition PY_send_call :: "ustring \<Rightarrow> event list \<Rightarrow> (exn + unit) \<times> event list" where
  "PY_send_call message tr = (Inl TypeError, tr)"

section \<open>Example records\<close>

text \<open>
  A detailed package as the detail endpoint returns it, and an item of the list endpoint,
  with the fields the classifiers read.
\<close>

definition CS_package :: "ustring \<Rightarrow> ustring \<Rightarrow> ustring \<Rightarrow> json" where
  "CS_package number status description =
     JObj [(asc ''number'', JStr number),
           (asc ''track_info'',
            JObj [(asc ''latest_event'', JObj [(asc ''description'', JStr description)]),
                  (asc ''latest_status'', JObj [(asc ''status'', JStr status)])])]"

definition TS_item :: "ustring \<Rightarrow> ustring \<Rightarrow> ustring \<Rightarrow> json" where
  "TS_item number status event =
     JObj [(asc ''number'', JStr number),
           (asc ''package_status'', JStr status),
           (asc ''latest_event_info'', JStr event)]"

text \<open>
  A server that fails the first \<open>k\<close> HTTP calls with a transport error and answers every
  later one with the JSON \<open>{"code": 0}\<close>.
\<close>

definition flaky :: "nat \<Rightarrow> server" where
  "flaky k tr =
     (if length (filter (\<lambda>ev. case ev of Http rq \<Rightarrow> True | Sleep n \<Rightarrow> False) tr) \<le> k
      then Inl (RequestException (length tr))
      else Inr \<lparr>content_type = Some (asc ''application/json''),
                json_body = Inr (JObj [(asc ''code'', JNum 0)]),
                status_error = False,
                body_text = []\<rparr>)"

text \<open>An environment with the four variables set.\<close>

definition example_env :: "ustring \<Rightarrow> whatsapp_env" where
  "example_env number =
     \<lparr>WAPI_URL = Some (asc ''https://gateway.example''),
      WAPI_TOKEN = Some (asc ''t''),
      WAPI_CONNECTION_KEY = Some (asc ''k''),
      TECHNICAL_DEPT_NUMBER = Some number\<rparr>"

text \<open>
  The provider's envelope, in the words of the specification: the success envelope is
  \<open>{code: 0, data: {accepted: [...]}}\<close>. An envelope has a non-zero \<open>code\<close> field; an
  envelope is missing \<open>data.accepted\<close> (there is no \<open>data\<close>, or \<open>data\<close> is a dict
  without \<open>accepted\<close>); an envelope is a success with these items; the first response
  of the list endpoint reports \<open>data_total\<close> and \<open>page_size\<close>.
\<close>

definition code_nonzero :: "json \<Rightarrow> bool" where
  "code_nonzero rd =
     (case rd of
        JObj kvs \<Rightarrow> (case map_of kvs (asc ''code'') of Some c \<Rightarrow> ne_zero c | None \<Rightarrow> False)
      | _ \<Rightarrow> False)"

definition missing_accepted :: "json \<Rightarrow> bool" where
  "missing_accepted rd =
     (case rd of
        JObj kvs \<Rightarrow>
          (case map_of kvs (asc ''data'') of
             None \<Rightarrow> True
           | Some (JObj dk) \<Rightarrow> map_of dk (asc ''accepted'') = None
           | Some _ \<Rightarrow> False)
      | _ \<Rightarrow> False)"

definition is_envelope :: "json \<Rightarrow> json list \<Rightarrow> bool" where
  "is_envelope rd items =
     (case rd of
        JObj kvs \<Rightarrow>
          map_of kvs (asc ''code'') = Some (JNum 0) \<and>
          (case map_of kvs (asc ''data'') of
             Some (JObj dk) \<Rightarrow> map_of dk (asc ''accepted'') = Some (JArr items)
           | _ \<Rightarrow> False)
      | _ \<Rightarrow> False)"

definition reports :: "json \<Rightarrow> int \<Rightarrow> int \<Rightarrow> bool" where
  "reports rd data_total page_size =
     (case rd of
        JObj kvs \<Rightarrow>
          (case map_of kvs (asc ''page'') of
             Some (JObj pg) \<Rightarrow>
               map_of pg (asc ''data_total'') = Some (JNum data_total) \<and>
               map_of pg (asc ''page_size'') = Some (JNum page_size)
           | _ \<Rightarrow> False)
      | _ \<Rightarrow> False)"

text \<open>Envelopes to try the code on.\<close>

definition envelope :: "json list \<Rightarrow> json" where
  "envelope items =
     JObj [(asc ''code'', JNum 0), (asc ''data'', JObj [(asc ''accepted'', JArr items)])]"

definition envelope_page :: "int \<Rightarrow> int \<Rightarrow> json list \<Rightarrow> json" where
  "envelope_page data_total page_size items =
     JObj [(asc ''code'', JNum 0),
           (asc ''page'', JObj [(asc ''data_total'', JNum data_total), (asc ''page_size'', JNum page_size)]),
           (asc ''data'', JObj [(asc ''accepted'', JArr items)])]"

text \<open>
  A server that answers the k-th HTTP call with the k-th document of a list, as
  \<open>application/json\<close>, and fails every call after the last document.
\<close>

definition calls :: "event list \<Rightarrow> nat" where
  "calls tr = length (filter (\<lambda>ev. case ev of Http rq \<Rightarrow> True | Sleep n \<Rightarrow> False) tr)"

definition json_response :: "json \<Rightarrow> response" where
  "json_response d =
     \<lparr>content_type = Some (asc ''application/json''), json_body = Inr d,
      status_error = False, body_text = []\<rparr>"

definition scripted :: "json list \<Rightarrow> server" where
  "scripted docs tr =
     (case drop (calls tr - 1) docs of
        [] \<Rightarrow> Inl (RequestException (calls tr))
      | d # rest \<Rightarrow> Inr (json_response d))"

text \<open>
  For the result of \<open>TrackingService\<close>: an item is taxed when \<open>_check_taxation\<close> returns
  \<open>True\<close> for it; an item is readable when \<open>_check_taxation\<close> returns for it and, if it
  is taxed, its \<open>package_info\<close> can be built (it has a \<open>number\<close>); \<open>info_of\<close> is that
  dict.
\<close>

definition taxed :: "json \<Rightarrow> bool" where
  "taxed item = (TS_check_taxation item = Inr True)"

definition readable_item :: "json \<Rightarrow> bool" where
  "readable_item item =
     (case TS_check_taxation item of
        Inl e \<Rightarrow> False
      | Inr b \<Rightarrow> (if b then (case TS_package_info item of Inl e \<Rightarrow> False | Inr i \<Rightarrow> True) else True))"

definition info_of :: "json \<Rightarrow> json" where
  "info_of item = (case TS_package_info item of Inl e \<Rightarrow> JNull | Inr i \<Rightarrow> i)"

text \<open>A server that answers every call with the same JSON document, and a sender's config.\<close>

definition always :: "json \<Rightarrow> server" where
  "always d tr = Inr (json_response d)"

definition example_cfg :: wa_config where
  "example_cfg = \<lparr>apiUrl = asc ''https://gateway.example'', connectionKey = asc ''k'', token = asc ''t''\<rparr>"

definition rejection :: json where
  "rejection = JObj [(asc ''error'', JBool True), (asc ''message'', JStr (asc ''rejected''))]"

text \<open>
  An item of the list endpoint with the two fields the detail request needs, a detailed
  package whose event description is null, and a \<open>send\<close> for the job of
  \<open>python/customs_summary.py\<close> that records the message as a request and returns.
\<close>

definition list_item :: "ustring \<Rightarrow> json" where
  "list_item number = JObj [(asc ''number'', JStr number), (asc ''carrier'', JNum 2151)]"

definition CS_package_null_event :: "ustring \<Rightarrow> ustring \<Rightarrow> json" where
  "CS_package_null_event number status =
     JObj [(asc ''number'', JStr number),
           (asc ''track_info'',
            JObj [(asc ''latest_event'', JObj [(asc ''description'', JNull)]),
                  (asc ''latest_status'', JObj [(asc ''status'', JStr status)])])]"

definition recording_send :: "ustring \<Rightarrow> event list \<Rightarrow> (exn + unit) \<times> event list" where
  "recording_send message tr =
     (Inr (), tr @ [Http (WA_send_request example_cfg (asc ''5511999998888'') message)])"

text \<open>A rendering of the values that are no str, for the examples: the empty text.\<close>

definition plain_repr :: "json \<Rightarrow> ustring" where
  "plain_repr v = []"

text \<open>
  A table of digits beyond Latin-1 for the examples: the Arabic-Indic digits
  U+0660-U+0669.
\<close>

definition example_digits :: "nat \<Rightarrow> bool" where
  "example_digits c = (1632 \<le> c \<and> c \<le> 1641)"

section \<open>Properties\<close>

subsection \<open>Classification\<close>


lemma kw_lower_TS: "k \<in> set TS_customs_keywords \<Longrightarrow> str_lower k = k"
  by (auto simp: TS_customs_keywords_def asc_def str_lower_def lower_cp_def)

lemma get_lower_str: "map_of kvs k = Some (JStr s) \<Longrightarrow> get_lower (JObj kvs) k = Inr (str_lower s)"
  by (cases "s = []") (simp_all add: get_lower_def py_or_def str_lower_def)

lemma get_dict_obj: "map_of kvs k = Some (JObj d) \<Longrightarrow> get_dict (JObj kvs) k = Inr (JObj d)"
  by (cases "d = []") (simp_all add: get_dict_def py_or_def)






lemma py_lower_or: "py_lower (py_or (JStr s) (JStr [])) = Inr (str_lower s)"
  by (cases "s = []") (simp_all add: py_or_def str_lower_def)

lemma CS_status_pending:
  assumes "map_of p (asc ''track_info'') = Some (JObj ti)"
    and "map_of ti (asc ''latest_event'') = Some (JObj le)"
    and "map_of le (asc ''description'') = Some (JStr d)"
    and "map_of ti (asc ''latest_status'') = Some (JObj ls)"
    and "map_of ls (asc ''status'') = Some (JStr s)"
    and "str_lower s \<in> set CS_problem_status"
  shows "CS_check_taxation (JObj p) = Inr True"
proof -
  have ti: "ti \<noteq> []" using assms(2) by auto
  have "CS_check_taxation_body (JObj p) = Inr True"
    using assms(1,6) ti get_lower_str[OF assms(3)] get_lower_str[OF assms(5)]
      get_dict_obj[OF assms(2)] get_dict_obj[OF assms(4)]
    by (simp add: CS_check_taxation_body_def split: option.splits)
  then show ?thesis by (simp add: CS_check_taxation_def)
qed

lemma TS_status_pending:
  assumes "map_of q (asc ''package_status'') = Some (JStr s)"
    and "map_of q (asc ''latest_event_info'') = Some (JStr d)"
    and "s \<in> set TS_customs_status"
  shows "TS_check_taxation (JObj q) = Inr True"
proof -
  have q: "q \<noteq> []" using assms(1) by auto
  have ev: "(let latest_event = py_or (JStr d) (JStr [])
             in if truthy latest_event then py_lower latest_event else Inr []) = Inr (str_lower d)"
    by (cases "d = []") (simp_all add: py_or_def str_lower_def)
  show ?thesis
    unfolding TS_check_taxation_def using q assms ev
    by (simp split: option.splits)
qed

text \<open>
  C2, as the code has it. Each classifier knows its own status set only:
  \<open>check_taxation\<close> returns \<open>True\<close> for a record whose status is, ignoring case, one
  of alert, expired, undelivered; \<open>_check_taxation\<close> returns \<open>True\<close> for a record whose
  status is exactly (case included) one of the four customs codes.
\<close>

theorem problem_status_own_set:
  "(map_of p (asc ''track_info'') = Some (JObj ti) \<and>
    map_of ti (asc ''latest_event'') = Some (JObj le) \<and>
    map_of le (asc ''description'') = Some (JStr d) \<and>
    map_of ti (asc ''latest_status'') = Some (JObj ls) \<and>
    map_of ls (asc ''status'') = Some (JStr s) \<and>
    str_lower s \<in> set CS_problem_status
    \<longrightarrow> CS_check_taxation (JObj p) = Inr True)
   \<and>
   (map_of q (asc ''package_status'') = Some (JStr s') \<and>
    map_of q (asc ''latest_event_info'') = Some (JStr d') \<and>
    s' \<in> set TS_customs_status
    \<longrightarrow> TS_check_taxation (JObj q) = Inr True)"
  using CS_status_pending TS_status_pending by blast

theorem problem_status_own_set_witness:
  "CS_check_taxation (CS_package (asc ''LX1'') (asc ''Expired'') (asc ''Delivered'')) = Inr True
   \<and> TS_check_taxation (TS_item (asc ''LX1'') (asc ''CustomsHold'') (asc ''Delivered'')) = Inr True"
  using problem_status_own_set
    [where p = "[(asc ''number'', JStr (asc ''LX1'')),
           (asc ''track_info'',
            JObj [(asc ''latest_event'', JObj [(asc ''description'', JStr (asc ''Delivered''))]),
                  (asc ''latest_status'', JObj [(asc ''status'', JStr (asc ''Expired''))])])]"
       and ti = "[(asc ''latest_event'', JObj [(asc ''description'', JStr (asc ''Delivered''))]),
                  (asc ''latest_status'', JObj [(asc ''status'', JStr (asc ''Expired''))])]"
       and le = "[(asc ''description'', JStr (asc ''Delivered''))]"
       and d = "asc ''Delivered''"
       and ls = "[(asc ''status'', JStr (asc ''Expired''))]"
       and s = "asc ''Expired''"
       and q = "[(asc ''number'', JStr (asc ''LX1'')),
           (asc ''package_status'', JStr (asc ''CustomsHold'')),
           (asc ''latest_event_info'', JStr (asc ''Delivered''))]"
       and s' = "asc ''CustomsHold''"
       and d' = "asc ''Delivered''"]
  by (simp add: CS_package_def TS_item_def CS_problem_status_def TS_customs_status_def asc_def
        str_lower_def lower_cp_def)

text \<open>
  Against the union: CustomsHold with a harmless event is not pending for
  \<open>check_taxation\<close>, alert is not pending for \<open>_check_taxation\<close>, and neither is a
  customs code in another case.
\<close>

theorem problem_status_union_counterexample:
  "str_lower (asc ''CustomsHold'') \<in> set (map str_lower (CS_problem_status @ TS_customs_status))
   \<and> CS_check_taxation (CS_package (asc ''LX1'') (asc ''CustomsHold'') (asc ''Delivered'')) = Inr False
   \<and> str_lower (asc ''alert'') \<in> set (map str_lower (CS_problem_status @ TS_customs_status))
   \<and> TS_check_taxation (TS_item (asc ''LX1'') (asc ''alert'') (asc ''Delivered'')) = Inr False
   \<and> TS_check_taxation (TS_item (asc ''LX1'') (asc ''customshold'') (asc ''Delivered'')) = Inr False"
  by code_simp

subsection \<open>The formatter\<close>

lemma format_step_record:
  assumes "map_of p (asc ''track_info'') = Some (JObj ti)"
    and "map_of ti (asc ''latest_event'') = Some (JObj le)"
    and "map_of le (asc ''description'') = Some (JStr d)"
    and "map_of ti (asc ''latest_status'') = Some (JObj ls)"
    and "map_of ls (asc ''status'') = Some (JStr s)"
    and "translate_event (JStr d) = Inr event"
  shows "format_step rp g (JObj p) =
           Inr (assign_group rp g (case_option (JStr (asc ''N/A'')) id (map_of p (asc ''number'')))
                  (str_lower s) event)"
proof -
  have ne: "p \<noteq> []" "ti \<noteq> []" using assms(1,2) by auto
  show ?thesis
    using assms(1,3,6) ne get_lower_str[OF assms(5)]
      get_dict_obj[OF assms(2)] get_dict_obj[OF assms(4)]
    by (simp add: format_step_def split: option.splits)
qed






lemma format_loop_none:
  "\<forall>pkg \<in> set packages. format_step rp g pkg = Inr g \<Longrightarrow> format_loop rp g packages = Inr g"
  by (induction packages) simp_all

lemma render_no_groups: "render no_groups = msg_header"
  by (simp add: render_def no_groups_def)

lemma header_differs: "msg_header \<noteq> msg_no_pending"
  by (simp add: msg_header_def msg_no_pending_def asc_def)

text \<open>
  C3, as the code has it. The empty list gives the fixed text "Nenhum pacote com
  pendencias."; a list that is not empty and whose records the loop puts in no group
  gives the header line alone, and that is another string.
\<close>

theorem format_empty_or_ungrouped:
  "format_summary_message rp [] = Inr msg_no_pending
   \<and> (packages \<noteq> [] \<and> (\<forall>pkg \<in> set packages. format_step rp no_groups pkg = Inr no_groups)
        \<longrightarrow> format_summary_message rp packages = Inr msg_header)
   \<and> msg_header \<noteq> msg_no_pending"
  using format_loop_none[of packages rp no_groups] render_no_groups header_differs
  by (auto simp: format_summary_message_def)

lemma ex_ungrouped:
  "format_step plain_repr no_groups (CS_package (asc ''LX1'') (asc ''Delivered'') (asc ''Delivered''))
     = Inr no_groups"
  by code_simp

theorem format_empty_or_ungrouped_witness:
  "format_summary_message plain_repr [] = Inr msg_no_pending
   \<and> format_summary_message plain_repr
        [CS_package (asc ''LX1'') (asc ''Delivered'') (asc ''Delivered'')] = Inr msg_header
   \<and> msg_header \<noteq> msg_no_pending"
  using format_empty_or_ungrouped
    [of plain_repr "[CS_package (asc ''LX1'') (asc ''Delivered'') (asc ''Delivered'')]"]
    ex_ungrouped
  by simp

lemma ex_none: "CS_check_taxation (CS_package (asc ''LX1'') (asc ''Delivered'') (asc ''Delivered'')) = Inr False"
  by code_simp

text \<open>
  A list of one record that \<open>check_taxation\<close> classifies as not pending: the message is the
  header, not the text for the empty list.
\<close>

theorem format_all_none_counterexample:
  "CS_check_taxation (CS_package (asc ''LX1'') (asc ''Delivered'') (asc ''Delivered'')) = Inr False
   \<and> format_summary_message plain_repr
        [CS_package (asc ''LX1'') (asc ''Delivered'') (asc ''Delivered'')] = Inr msg_header
   \<and> format_summary_message plain_repr [] = Inr msg_no_pending
   \<and> msg_header \<noteq> msg_no_pending"
  using ex_none ex_ungrouped render_no_groups header_differs
  by (simp add: format_summary_message_def)

subsection \<open>The retrying request\<close>

text \<open>
  C5. \<open>make_request\<close> has three attempts. When the HTTP library raises at the first and
  at the second, and the third gives a response the \<open>try\<close> body accepts, the call
  returns that result and no error; when the library raises at the third as well, the
  call raises that last exception. In both cases there were three calls with a sleep of
  one second after the first and after the second.
\<close>

theorem retry_third_attempt:
  assumes "srv (tr @ [Http rq]) = Inl e1"
    and "srv (tr @ [Http rq, Sleep 1, Http rq]) = Inl e2"
  shows "(srv (tr @ [Http rq, Sleep 1, Http rq, Sleep 1, Http rq]) = Inr r \<and>
          read_response r = Inr data \<longrightarrow>
            make_request srv rq tr =
              (Inr data, tr @ [Http rq, Sleep 1, Http rq, Sleep 1, Http rq]))
       \<and> (srv (tr @ [Http rq, Sleep 1, Http rq, Sleep 1, Http rq]) = Inl e3 \<longrightarrow>
            make_request srv rq tr =
              (Inl e3, tr @ [Http rq, Sleep 1, Http rq, Sleep 1, Http rq]))"
proof -
  have three: "max_retries = Suc (Suc (Suc 0))"
    by (simp add: max_retries_def)
  show ?thesis
    using assms by (simp add: make_request_def three http_def retry_delay_def)
qed

lemma ex_read:
  "read_response \<lparr>content_type = Some (asc ''application/json''),
                json_body = Inr (JObj [(asc ''code'', JNum 0)]),
                status_error = False,
                body_text = []\<rparr> = Inr (RJson (JObj [(asc ''code'', JNum 0)]))"
  by (simp add: read_response_def asc_def)

theorem retry_third_attempt_witness:
  "make_request (flaky 2) (list_request [] 1) [] =
     (Inr (RJson (JObj [(asc ''code'', JNum 0)])),
      [Http (list_request [] 1), Sleep 1, Http (list_request [] 1), Sleep 1, Http (list_request [] 1)])
   \<and> make_request (flaky 3) (list_request [] 1) [] =
     (Inl (RequestException 5),
      [Http (list_request [] 1), Sleep 1, Http (list_request [] 1), Sleep 1, Http (list_request [] 1)])"
  using retry_third_attempt[of "flaky 2" "[]" "list_request [] 1" "RequestException 1" "RequestException 3"
      "\<lparr>content_type = Some (asc ''application/json''),
                json_body = Inr (JObj [(asc ''code'', JNum 0)]),
                status_error = False,
                body_text = []\<rparr>" "RJson (JObj [(asc ''code'', JNum 0)])"]
    retry_third_attempt[of "flaky 3" "[]" "list_request [] 1" "RequestException 1" "RequestException 3"
      _ _ "RequestException 5"]
    ex_read
  by (simp add: flaky_def)

subsection \<open>The destination number\<close>

lemma prefix_snoc_more: "prefix (tr @ a # bs) t \<Longrightarrow> prefix (tr @ [a]) t"
proof -
  assume "prefix (tr @ a # bs) t"
  then have "prefix ((tr @ [a]) @ bs) t" by simp
  then show ?thesis by (rule append_prefixD)
qed

lemma attempts_trace: "prefix tr (snd (attempts n srv rq tr))"
proof (induction n arbitrary: tr)
  case 0
  show ?case by simp
next
  case (Suc n)
  have "prefix (tr @ [Http rq, Sleep retry_delay]) (snd (attempts n srv rq (tr @ [Http rq, Sleep retry_delay])))"
    using Suc.IH by blast
  then have "prefix tr (snd (attempts n srv rq (tr @ [Http rq, Sleep retry_delay])))"
    by (rule append_prefixD)
  then show ?case
    by (auto simp: http_def split: sum.splits)
qed

lemma attempts_first: "prefix (tr @ [Http rq]) (snd (attempts (Suc n) srv rq tr))"
proof -
  have "prefix (tr @ [Http rq]) (snd (attempts n srv rq (tr @ [Http rq, Sleep retry_delay])))"
    using attempts_trace[of "tr @ [Http rq, Sleep retry_delay]" n srv rq]
    by (rule prefix_snoc_more)
  then show ?thesis
    by (auto simp: http_def split: sum.splits)
qed

lemma make_request_first: "prefix (tr @ [Http rq]) (snd (make_request srv rq tr))"
  using attempts_first[of tr rq 2 srv]
  by (simp add: make_request_def max_retries_def numeral_3_eq_3)

text \<open>
  C6. The number the message is sent to: the two examples of the specification; in
  general the digits of the configured number (the code points \<open>str.isdigit\<close> accepts,
  whatever the Unicode table \<open>uni\<close> holds beyond Latin-1), with 55 put in front exactly
  when they do not start with 55; a number without any digit raises a \<open>ValueError\<close>
  before any request is made, and otherwise the first request carries the normalised
  number.
\<close>

theorem phone_normalization:
  "clean_number uni (asc ''(55) 11 99999-8888'') = Inr (asc ''5511999998888'')
   \<and> clean_number uni (asc ''11999998888'') = Inr (asc ''5511999998888'')
   \<and> (filter (str_isdigit uni) number \<noteq> [] \<longrightarrow>
        clean_number uni number =
          Inr (if prefix (asc ''55'') (filter (str_isdigit uni) number) then filter (str_isdigit uni) number
               else asc ''55'' @ filter (str_isdigit uni) number))
   \<and> (filter (str_isdigit uni) number = [] \<longrightarrow> clean_number uni number = Inl (ValueError InvalidWhatsAppNumber))
   \<and> (TECHNICAL_DEPT_NUMBER env = Some number \<and> filter (str_isdigit uni) number = [] \<longrightarrow>
        (\<exists>v. CS_send_whatsapp_message uni env srv message tr = (Inl (ValueError v), tr)))
   \<and> (missing_config env = [] \<and> TECHNICAL_DEPT_NUMBER env = Some number \<and>
      clean_number uni number = Inr n \<longrightarrow>
        prefix (tr @ [Http (send_request env n message)])
          (snd (CS_send_whatsapp_message uni env srv message tr)))"
proof -
  have a: "clean_number uni (asc ''(55) 11 99999-8888'') = Inr (asc ''5511999998888'')"
    by (simp add: clean_number_def asc_def str_isdigit_def)
  have b: "clean_number uni (asc ''11999998888'') = Inr (asc ''5511999998888'')"
    by (simp add: clean_number_def asc_def str_isdigit_def)
  have c: "filter (str_isdigit uni) number \<noteq> [] \<longrightarrow>
        clean_number uni number =
          Inr (if prefix (asc ''55'') (filter (str_isdigit uni) number) then filter (str_isdigit uni) number
               else asc ''55'' @ filter (str_isdigit uni) number)"
    by (simp add: clean_number_def Let_def)
  have d: "filter (str_isdigit uni) number = [] \<longrightarrow> clean_number uni number = Inl (ValueError InvalidWhatsAppNumber)"
    by (simp add: clean_number_def)
  have e: "TECHNICAL_DEPT_NUMBER env = Some number \<and> filter (str_isdigit uni) number = [] \<longrightarrow>
        (\<exists>v. CS_send_whatsapp_message uni env srv message tr = (Inl (ValueError v), tr))"
    using d by (auto simp: CS_send_whatsapp_message_def)
  have f: "missing_config env = [] \<and> TECHNICAL_DEPT_NUMBER env = Some number \<and>
      clean_number uni number = Inr n \<longrightarrow>
        prefix (tr @ [Http (send_request env n message)])
          (snd (CS_send_whatsapp_message uni env srv message tr))"
    using make_request_first[of tr "send_request env n message" srv]
    by (auto simp: CS_send_whatsapp_message_def split: prod.splits sum.splits)
  show ?thesis using a b c d e f by blast
qed

theorem phone_normalization_witness:
  "clean_number example_digits (asc ''n/a'') = Inl (ValueError InvalidWhatsAppNumber)
   \<and> clean_number example_digits [1633, 1633, 1641] = Inr (asc ''55'' @ [1633, 1633, 1641])
   \<and> (\<exists>v. CS_send_whatsapp_message example_digits (example_env (asc ''n/a'')) (flaky 0) (asc ''hello'') []
          = (Inl (ValueError v), []))
   \<and> prefix [Http (send_request (example_env (asc ''(55) 11 99999-8888'')) (asc ''5511999998888'') (asc ''hello''))]
        (snd (CS_send_whatsapp_message example_digits (example_env (asc ''(55) 11 99999-8888'')) (flaky 0) (asc ''hello'') []))"
proof -
  have m: "missing_config (example_env (asc ''(55) 11 99999-8888'')) = []"
    by (simp add: missing_config_def example_env_def asc_def)
  have d: "filter (str_isdigit example_digits) (asc ''n/a'') = []"
    by (simp add: asc_def str_isdigit_def)
  have a: "filter (str_isdigit example_digits) [1633, 1633, 1641] = [1633, 1633, 1641]"
    by (simp add: str_isdigit_def example_digits_def)
  have c: "clean_number example_digits (asc ''(55) 11 99999-8888'') = Inr (asc ''5511999998888'')"
    by (simp add: clean_number_def asc_def str_isdigit_def)
  have bad: "TECHNICAL_DEPT_NUMBER (example_env (asc ''n/a'')) = Some (asc ''n/a'')"
    and ok: "TECHNICAL_DEPT_NUMBER (example_env (asc ''(55) 11 99999-8888'')) = Some (asc ''(55) 11 99999-8888'')"
    by (simp_all add: example_env_def)
  have "clean_number example_digits (asc ''n/a'') = Inl (ValueError InvalidWhatsAppNumber)"
    using phone_normalization[where uni = example_digits and number = "asc ''n/a''"] d by blast
  moreover have "clean_number example_digits [1633, 1633, 1641] = Inr (asc ''55'' @ [1633, 1633, 1641])"
    using phone_normalization[where uni = example_digits and number = "[1633, 1633, 1641]"] a
    by (simp add: asc_def)
  moreover have "\<exists>v. CS_send_whatsapp_message example_digits (example_env (asc ''n/a'')) (flaky 0) (asc ''hello'') []
          = (Inl (ValueError v), [])"
    using phone_normalization[where uni = example_digits and number = "asc ''n/a''"
        and env = "example_env (asc ''n/a'')" and srv = "flaky 0" and message = "asc ''hello''" and tr = "[]"]
      bad d by blast
  moreover have "prefix ([] @ [Http (send_request (example_env (asc ''(55) 11 99999-8888'')) (asc ''5511999998888'') (asc ''hello''))])
        (snd (CS_send_whatsapp_message example_digits (example_env (asc ''(55) 11 99999-8888'')) (flaky 0) (asc ''hello'') []))"
    using phone_normalization[where uni = example_digits and number = "asc ''(55) 11 99999-8888''"
        and env = "example_env (asc ''(55) 11 99999-8888'')" and srv = "flaky 0"
        and message = "asc ''hello''" and tr = "[]" and n = "asc ''5511999998888''"]
      m ok c by blast
  ultimately show ?thesis by (simp only: append_Nil simp_thms)
qed

subsection \<open>Malformed pages\<close>

lemma TS_check_response_bad:
  assumes "code_nonzero rd \<or> missing_accepted rd"
  shows "\<exists>e. TS_check_response rd = Inl e"
proof (cases rd)
  case (JObj kvs)
  show ?thesis
  proof (cases "kvs = []")
    case True
    with JObj show ?thesis by (simp add: TS_check_response_def)
  next
    case False
    show ?thesis
    proof (cases "map_of kvs (asc ''code'')")
      case None
      with JObj False show ?thesis by (simp add: TS_check_response_def ne_zero_def)
    next
      case (Some c)
      show ?thesis
      proof (cases "ne_zero c")
        case True
        with JObj False Some show ?thesis by (simp add: TS_check_response_def)
      next
        case nz: False
        with assms JObj Some have m: "missing_accepted rd" by (simp add: code_nonzero_def)
        show ?thesis
        proof (cases "map_of kvs (asc ''data'')")
          case None
          with JObj False Some nz show ?thesis by (simp add: TS_check_response_def)
        next
          case d: (Some data)
          with m JObj obtain dk where dk: "data = JObj dk" "map_of dk (asc ''accepted'') = None"
            by (auto simp: missing_accepted_def split: json.splits)
          with JObj False Some nz d show ?thesis by (simp add: TS_check_response_def)
        qed
      qed
    qed
  qed
qed (use assms in \<open>auto simp: code_nonzero_def missing_accepted_def\<close>)

lemma TS_page_bad:
  assumes "json_body r = Inr rd" and "code_nonzero rd \<or> missing_accepted rd"
  shows "\<exists>e. TS_page page total_pages (Inr r) = Inl e"
  using TS_check_response_bad[OF assms(2)] assms(1) by (auto simp: TS_page_def)

lemma CS_code_nonzero:
  assumes "code_nonzero rd"
  shows "\<exists>c m. reply_get (RJson rd) (asc ''code'') JNull = Inr c \<and> ne_zero c \<and>
          reply_get (RJson rd) (asc ''message'') JNull = Inr m"
  using assms by (auto simp: code_nonzero_def split: json.splits option.splits)

lemma CS_missing_accepted:
  assumes "map_of kvs (asc ''code'') = Some (JNum 0)" and "missing_accepted (JObj kvs)"
  shows "reply_get (RJson (JObj kvs)) (asc ''code'') JNull = Inr (JNum 0)"
    and "accepted_of (RJson (JObj kvs)) = Inr (JArr [])"
  using assms by (auto simp: missing_accepted_def accepted_of_def split: json.splits option.splits)

lemma malformed_page_third:
  assumes "make_request srv (list_request url current_page) tr = (Inr (RJson (JObj kvs)), tr1)"
    and "map_of kvs (asc ''code'') = Some (JNum 0)" and "missing_accepted (JObj kvs)"
  shows "get_all_packages_from srv url all_packages current_page tr = Some (Inr all_packages, tr1)"
  using assms CS_missing_accepted[OF assms(2,3)]
  by (subst get_all_packages_from.simps) (simp add: ne_zero_def)

text \<open>
  C7, as the code has it. In \<open>TrackingService\<close> a page whose envelope has a non-zero
  \<open>code\<close> or is missing \<open>data.accepted\<close> makes the fetch raise: no list is returned,
  and the page's request was the last one. In \<open>CustomsSummary.get_all_packages\<close> a
  non-zero \<open>code\<close> raises a \<open>ValueError\<close> as well; an envelope with \<open>code\<close> 0 that is
  missing \<open>data.accepted\<close> is read as an empty page, which ends the loop and returns
  the packages of the pages before it.
\<close>

theorem malformed_page:
  "(page \<le> total_pages \<and>
    srv (tr @ [Http (TS_list_request page)]) = Inr r \<and> json_body r = Inr rd \<and>
    (code_nonzero rd \<or> missing_accepted rd)
    \<longrightarrow> (\<exists>e. TS_pages srv pending_packages page total_pages tr =
                (Inl e, tr @ [Http (TS_list_request page)])))
   \<and>
   (make_request srv (list_request url current_page) tr = (Inr (RJson rd), tr1) \<and>
    code_nonzero rd
    \<longrightarrow> (\<exists>m. get_all_packages_from srv url all_packages current_page tr =
                Some (Inl (ValueError (ListError m)), tr1)))
   \<and>
   (make_request srv (list_request url current_page) tr = (Inr (RJson (JObj kvs)), tr1) \<and>
    map_of kvs (asc ''code'') = Some (JNum 0) \<and> missing_accepted (JObj kvs)
    \<longrightarrow> get_all_packages_from srv url all_packages current_page tr =
          Some (Inr all_packages, tr1))"
proof (intro conjI impI)
  assume a: "page \<le> total_pages \<and>
    srv (tr @ [Http (TS_list_request page)]) = Inr r \<and> json_body r = Inr rd \<and>
    (code_nonzero rd \<or> missing_accepted rd)"
  then obtain e where "TS_page page total_pages (Inr r) = Inl e"
    using TS_page_bad by blast
  with a have "TS_pages srv pending_packages page total_pages tr =
                (Inl e, tr @ [Http (TS_list_request page)])"
    by (subst TS_pages.simps) (simp add: http_def)
  then show "\<exists>e. TS_pages srv pending_packages page total_pages tr =
                (Inl e, tr @ [Http (TS_list_request page)])" by blast
next
  assume a: "make_request srv (list_request url current_page) tr = (Inr (RJson rd), tr1) \<and>
    code_nonzero rd"
  then obtain c m where "reply_get (RJson rd) (asc ''code'') JNull = Inr c" "ne_zero c"
     "reply_get (RJson rd) (asc ''message'') JNull = Inr m"
    using CS_code_nonzero by blast
  with a have "get_all_packages_from srv url all_packages current_page tr =
                Some (Inl (ValueError (ListError m)), tr1)"
    by (subst get_all_packages_from.simps) simp
  then show "\<exists>m. get_all_packages_from srv url all_packages current_page tr =
                Some (Inl (ValueError (ListError m)), tr1)" by blast
next
  assume a: "make_request srv (list_request url current_page) tr = (Inr (RJson (JObj kvs)), tr1) \<and>
    map_of kvs (asc ''code'') = Some (JNum 0) \<and> missing_accepted (JObj kvs)"
  then have "reply_get (RJson (JObj kvs)) (asc ''code'') JNull = Inr (JNum 0)"
    "accepted_of (RJson (JObj kvs)) = Inr (JArr [])"
    using CS_missing_accepted by blast+
  with a show "get_all_packages_from srv url all_packages current_page tr =
          Some (Inr all_packages, tr1)"
    by (subst get_all_packages_from.simps) (simp add: ne_zero_def)
qed

lemma make_request_ok:
  assumes "srv (tr @ [Http rq]) = Inr r" and "read_response r = Inr d"
  shows "make_request srv rq tr = (Inr d, tr @ [Http rq])"
  using assms by (simp add: make_request_def max_retries_def numeral_3_eq_3 http_def)

lemma calls_simps:
  "calls [] = 0"
  "calls (tr @ [Http rq]) = Suc (calls tr)"
  "calls (tr @ [Sleep n]) = calls tr"
  "calls (Http rq # tr) = Suc (calls tr)"
  "calls (Sleep n # tr) = calls tr"
  by (simp_all add: calls_def)

lemma read_json_response:
  assumes "dict_get d (asc ''error'') JNull = Inr err" and "\<not> truthy err"
  shows "read_response (json_response d) = Inr (RJson d)"
  using assms by (simp add: read_response_def json_response_def)

lemma json_body_response: "json_body (json_response d) = Inr d"
  by (simp add: json_response_def)

lemma scripted_request:
  assumes "drop (calls tr) docs = d # rest"
    and "dict_get d (asc ''error'') JNull = Inr err" and "\<not> truthy err"
  shows "make_request (scripted docs) rq tr = (Inr (RJson d), tr @ [Http rq])"
proof -
  have "scripted docs (tr @ [Http rq]) = Inr (json_response d)"
    using assms(1) by (simp add: scripted_def calls_simps)
  then show ?thesis
    using read_json_response[OF assms(2,3)] by (rule make_request_ok)
qed

lemma is_envelopeD:
  assumes "is_envelope rd items"
  obtains kvs dk where "rd = JObj kvs" and "map_of kvs (asc ''code'') = Some (JNum 0)"
    and "map_of kvs (asc ''data'') = Some (JObj dk)"
    and "map_of dk (asc ''accepted'') = Some (JArr items)"
proof (cases rd)
  case (JObj kvs)
  with assms have c: "map_of kvs (asc ''code'') = Some (JNum 0)"
    and d: "(case map_of kvs (asc ''data'') of
               Some (JObj dk) \<Rightarrow> map_of dk (asc ''accepted'') = Some (JArr items)
             | _ \<Rightarrow> False)"
    by (simp_all add: is_envelope_def)
  from d obtain v where v: "map_of kvs (asc ''data'') = Some v"
    by (cases "map_of kvs (asc ''data'')") simp_all
  with d obtain dk where dk: "v = JObj dk"
    by (cases v) simp_all
  with d v have "map_of dk (asc ''accepted'') = Some (JArr items)" by simp
  with JObj c v dk that show ?thesis by blast
qed (use assms in \<open>simp_all add: is_envelope_def\<close>)

lemma ex_code1:
  "code_nonzero (JObj [(asc ''code'', JNum 1)])"
  "dict_get (JObj [(asc ''code'', JNum 1)]) (asc ''error'') JNull = Inr JNull"
  by (simp_all add: code_nonzero_def ne_zero_def asc_def)

lemma ex_code0:
  "missing_accepted (JObj [(asc ''code'', JNum 0)])"
  "dict_get (JObj [(asc ''code'', JNum 0)]) (asc ''error'') JNull = Inr JNull"
  "map_of [(asc ''code'', JNum 0)] (asc ''code'') = Some (JNum 0)"
  by (simp_all add: missing_accepted_def asc_def)

theorem malformed_page_witness:
  "(\<exists>e. TS_pages (scripted [JObj [(asc ''code'', JNum 1)]]) [] 1 1 [] =
          (Inl e, [Http (TS_list_request 1)]))
   \<and> (\<exists>m. get_all_packages_from (scripted [JObj [(asc ''code'', JNum 1)]]) [] [] 1 [] =
          Some (Inl (ValueError (ListError m)), [Http (list_request [] 1)]))
   \<and> get_all_packages_from (scripted [JObj [(asc ''code'', JNum 0)]]) [] [] 1 [] =
          Some (Inr [], [Http (list_request [] 1)])"
proof -
  let ?bad = "JObj [(asc ''code'', JNum 1)]"
  let ?kvs = "[(asc ''code'', JNum 0)]"
  have s1: "scripted [d] ([] @ [Http rq]) = Inr (json_response d)" for d rq
    by (simp add: scripted_def calls_simps)
  have m1: "make_request (scripted [?bad]) (list_request [] 1) [] =
              (Inr (RJson ?bad), [] @ [Http (list_request [] 1)])"
    by (rule scripted_request[OF _ ex_code1(2)]) (simp_all add: calls_simps)
  have m0: "make_request (scripted [JObj ?kvs]) (list_request [] 1) [] =
              (Inr (RJson (JObj ?kvs)), [] @ [Http (list_request [] 1)])"
    by (rule scripted_request[OF _ ex_code0(2)]) (simp_all add: calls_simps)
  have a: "\<exists>e. TS_pages (scripted [?bad]) [] 1 1 [] = (Inl e, [] @ [Http (TS_list_request 1)])"
    using malformed_page[of 1 1 "scripted [?bad]" "[]" "json_response ?bad" ?bad "[]"]
      s1 json_body_response ex_code1(1) by simp
  have b: "\<exists>m. get_all_packages_from (scripted [?bad]) [] [] 1 [] =
          Some (Inl (ValueError (ListError m)), [] @ [Http (list_request [] 1)])"
    using malformed_page[where srv = "scripted [?bad]" and url = "[]" and current_page = 1
         and tr = "[]" and rd = ?bad and ?tr1.0 = "[] @ [Http (list_request [] 1)]"
         and all_packages = "[]"]
      m1 ex_code1(1) by blast
  have c: "get_all_packages_from (scripted [JObj ?kvs]) [] [] 1 [] =
          Some (Inr [], [] @ [Http (list_request [] 1)])"
    using malformed_page[where srv = "scripted [JObj ?kvs]" and url = "[]" and current_page = 1
         and tr = "[]" and kvs = ?kvs and ?tr1.0 = "[] @ [Http (list_request [] 1)]"
         and all_packages = "[]"]
      m0 ex_code0(1,3) by blast
  show ?thesis using a b c by (simp only: append_Nil simp_thms)
qed

lemma CS_page_step:
  assumes "make_request srv (list_request url p) tr = (Inr (RJson rd), tr1)"
    and "is_envelope rd items"
  shows "get_all_packages_from srv url all_packages p tr =
           (if length items < 40 then Some (Inr (all_packages @ items), tr1)
            else get_all_packages_from srv url (all_packages @ items) (p + 1) tr1)"
proof -
  from assms(2) have "reply_get (RJson rd) (asc ''code'') JNull = Inr (JNum 0)"
    "accepted_of (RJson rd) = Inr (JArr items)"
    by (auto elim!: is_envelopeD simp: accepted_of_def)
  with assms(1) show ?thesis
    by (subst get_all_packages_from.simps) (simp add: ne_zero_def)
qed

lemma envelope_is: "is_envelope (envelope items) items"
  by (simp add: is_envelope_def envelope_def asc_def)

lemma envelope_error: "dict_get (envelope items) (asc ''error'') JNull = Inr JNull"
  by (simp add: envelope_def asc_def)

text \<open>
  A first page of 40 packages and a second page \<open>{"code": 0}\<close>: \<open>get_all_packages\<close>
  returns the 40 packages of the first page and raises nothing.
\<close>

theorem partial_result_counterexample:
  "missing_accepted (JObj [(asc ''code'', JNum 0)])
   \<and> get_all_packages
       (scripted [envelope (replicate 40 (TS_item (asc ''LX1'') (asc ''Delivered'') (asc ''Delivered''))),
                  JObj [(asc ''code'', JNum 0)]]) [] []
     = Some (Inr (replicate 40 (TS_item (asc ''LX1'') (asc ''Delivered'') (asc ''Delivered''))),
             [Http (list_request [] 1), Http (list_request [] 2)])"
proof -
  let ?items = "replicate 40 (TS_item (asc ''LX1'') (asc ''Delivered'') (asc ''Delivered''))"
  let ?kvs = "[(asc ''code'', JNum 0)]"
  let ?srv = "scripted [envelope ?items, JObj ?kvs]"
  have m1: "make_request ?srv (list_request [] 1) [] =
              (Inr (RJson (envelope ?items)), [] @ [Http (list_request [] 1)])"
    by (rule scripted_request[OF _ envelope_error]) (simp_all add: calls_simps)
  have m2: "make_request ?srv (list_request [] 2) [Http (list_request [] 1)] =
              (Inr (RJson (JObj ?kvs)), [Http (list_request [] 1)] @ [Http (list_request [] 2)])"
    by (rule scripted_request[OF _ ex_code0(2)]) (simp_all add: calls_simps)
  have p1: "get_all_packages_from ?srv [] [] 1 [] =
              get_all_packages_from ?srv [] ([] @ ?items) (1 + 1) ([] @ [Http (list_request [] 1)])"
    using CS_page_step[OF m1 envelope_is, of "[]"] by simp
  have p2: "get_all_packages_from ?srv [] ?items 2 [Http (list_request [] 1)] =
              Some (Inr ?items, [Http (list_request [] 1)] @ [Http (list_request [] 2)])"
    using malformed_page_third[OF m2 ex_code0(3) ex_code0(1), of ?items] .
  show ?thesis
    using p1 p2 ex_code0(1) by (simp add: get_all_packages_def numeral_2_eq_2)
qed

subsection \<open>Pagination\<close>

lemma TS_collect_filter:
  "\<forall>item \<in> set items. readable_item item \<Longrightarrow>
     TS_collect items = Inr (map info_of (filter taxed items))"
proof (induction items)
  case Nil
  show ?case by simp
next
  case (Cons item items)
  then have r: "readable_item item" and ih: "TS_collect items = Inr (map info_of (filter taxed items))"
    by simp_all
  from r obtain b where b: "TS_check_taxation item = Inr b"
    by (cases "TS_check_taxation item") (simp_all add: readable_item_def)
  show ?case
  proof (cases b)
    case True
    with r b obtain i where i: "TS_package_info item = Inr i"
      by (cases "TS_package_info item") (simp_all add: readable_item_def)
    from True b have "taxed item" by (simp add: taxed_def)
    moreover from i have "info_of item = i" by (simp add: info_of_def)
    ultimately show ?thesis using True b i ih by simp
  next
    case False
    with b have "\<not> taxed item" by (simp add: taxed_def)
    with False b ih show ?thesis by simp
  qed
qed

lemma reportsD:
  assumes "reports rd dt ps"
  obtains kvs pg where "rd = JObj kvs" and "map_of kvs (asc ''page'') = Some (JObj pg)"
    and "map_of pg (asc ''data_total'') = Some (JNum dt)"
    and "map_of pg (asc ''page_size'') = Some (JNum ps)"
proof (cases rd)
  case (JObj kvs)
  with assms have d: "(case map_of kvs (asc ''page'') of
               Some (JObj pg) \<Rightarrow> map_of pg (asc ''data_total'') = Some (JNum dt) \<and>
                                map_of pg (asc ''page_size'') = Some (JNum ps)
             | _ \<Rightarrow> False)"
    by (simp add: reports_def)
  from d obtain v where v: "map_of kvs (asc ''page'') = Some v"
    by (cases "map_of kvs (asc ''page'')") simp_all
  with d obtain pg where pg: "v = JObj pg"
    by (cases v) simp_all
  with d v have "map_of pg (asc ''data_total'') = Some (JNum dt)"
    "map_of pg (asc ''page_size'') = Some (JNum ps)" by simp_all
  with JObj v pg that show ?thesis by blast
qed (use assms in \<open>simp_all add: reports_def\<close>)

lemma TS_total_pages_85:
  assumes "reports rd 85 40"
  shows "TS_total_pages rd total_pages = Inr 3"
  using assms by (auto elim!: reportsD simp: TS_total_pages_def)

lemma TS_check_response_ok:
  assumes "is_envelope rd items"
  shows "TS_check_response rd = Inr ()"
proof -
  from assms obtain kvs dk where k: "rd = JObj kvs" "map_of kvs (asc ''code'') = Some (JNum 0)"
    "map_of kvs (asc ''data'') = Some (JObj dk)" "map_of dk (asc ''accepted'') = Some (JArr items)"
    by (rule is_envelopeD)
  then have "kvs \<noteq> []" by auto
  with k show ?thesis by (simp add: TS_check_response_def ne_zero_def)
qed

lemma TS_page_ok:
  assumes "json_body r = Inr rd" and "is_envelope rd items"
    and "\<forall>item \<in> set items. readable_item item"
    and "if page = 1 then TS_total_pages rd total_pages = Inr tp else tp = total_pages"
  shows "TS_page page total_pages (Inr r) = Inr (tp, map info_of (filter taxed items))"
proof -
  from assms(2) obtain kvs dk where k: "rd = JObj kvs"
    "map_of kvs (asc ''data'') = Some (JObj dk)" "map_of dk (asc ''accepted'') = Some (JArr items)"
    by (rule is_envelopeD)
  show ?thesis
    using assms(1,4) k TS_check_response_ok[OF assms(2)] TS_collect_filter[OF assms(3)]
    by (simp add: TS_page_def split: if_splits)
qed

lemma TS_pages_step:
  assumes "page \<le> total_pages"
    and "srv (tr @ [Http (TS_list_request page)]) = Inr r"
    and "TS_page page total_pages (Inr r) = Inr (tp, found)"
  shows "TS_pages srv pending page total_pages tr =
           TS_pages srv (pending @ found) (page + 1) tp (tr @ [Http (TS_list_request page)])"
  using assms by (subst TS_pages.simps) (simp add: http_def)

lemma TS_pages_done:
  "total_pages < page \<Longrightarrow> TS_pages srv pending page total_pages tr = (Inr pending, tr)"
  by (subst TS_pages.simps) simp

lemma TS_three_pages:
  assumes "srv (tr @ [Http (TS_list_request 1)]) = Inr r1"
    and "json_body r1 = Inr rd1" and "is_envelope rd1 items1" and "reports rd1 85 40"
    and "\<forall>item \<in> set items1. readable_item item"
    and "srv (tr @ [Http (TS_list_request 1), Http (TS_list_request 2)]) = Inr r2"
    and "json_body r2 = Inr rd2" and "is_envelope rd2 items2"
    and "\<forall>item \<in> set items2. readable_item item"
    and "srv (tr @ [Http (TS_list_request 1), Http (TS_list_request 2), Http (TS_list_request 3)]) = Inr r3"
    and "json_body r3 = Inr rd3" and "is_envelope rd3 items3"
    and "\<forall>item \<in> set items3. readable_item item"
  shows "TS_get_packages_with_pending_customs srv tr =
           (Inr (map info_of (filter taxed (items1 @ items2 @ items3))),
            tr @ [Http (TS_list_request 1), Http (TS_list_request 2), Http (TS_list_request 3)])"
proof -
  let ?f1 = "map info_of (filter taxed items1)"
  let ?f2 = "map info_of (filter taxed items2)"
  let ?f3 = "map info_of (filter taxed items3)"
  let ?t1 = "tr @ [Http (TS_list_request 1)]"
  let ?t2 = "tr @ [Http (TS_list_request 1), Http (TS_list_request 2)]"
  let ?t3 = "tr @ [Http (TS_list_request 1), Http (TS_list_request 2), Http (TS_list_request 3)]"
  have p1: "TS_page 1 1 (Inr r1) = Inr (3, ?f1)"
    by (rule TS_page_ok[OF assms(2,3,5)]) (simp add: TS_total_pages_85[OF assms(4)])
  have p2: "TS_page 2 3 (Inr r2) = Inr (3, ?f2)"
    by (rule TS_page_ok[OF assms(7,8,9)]) simp
  have p3: "TS_page 3 3 (Inr r3) = Inr (3, ?f3)"
    by (rule TS_page_ok[OF assms(11,12,13)]) simp
  have "TS_pages srv [] 1 1 tr = TS_pages srv ([] @ ?f1) (1 + 1) 3 ?t1"
    using assms(1) p1 by (intro TS_pages_step) simp_all
  also have "\<dots> = TS_pages srv ?f1 2 3 ?t1" by simp
  also have "\<dots> = TS_pages srv (?f1 @ ?f2) (2 + 1) 3 (?t1 @ [Http (TS_list_request 2)])"
    using assms(6) p2 by (intro TS_pages_step) simp_all
  also have "\<dots> = TS_pages srv (?f1 @ ?f2) 3 3 ?t2" by simp
  also have "\<dots> = TS_pages srv ((?f1 @ ?f2) @ ?f3) (3 + 1) 3 (?t2 @ [Http (TS_list_request 3)])"
    using assms(10) p3 by (intro TS_pages_step) simp_all
  also have "\<dots> = (Inr ((?f1 @ ?f2) @ ?f3), ?t2 @ [Http (TS_list_request 3)])"
    by (rule TS_pages_done) simp
  finally show ?thesis
    by (simp add: TS_get_packages_with_pending_customs_def)
qed

lemma CS_three_pages:
  assumes "srv (tr @ [Http (list_request url 1)]) = Inr r1"
    and "read_response r1 = Inr (RJson rd1)" and "is_envelope rd1 items1" and "40 \<le> length items1"
    and "srv (tr @ [Http (list_request url 1), Http (list_request url 2)]) = Inr r2"
    and "read_response r2 = Inr (RJson rd2)" and "is_envelope rd2 items2" and "40 \<le> length items2"
    and "srv (tr @ [Http (list_request url 1), Http (list_request url 2), Http (list_request url 3)]) = Inr r3"
    and "read_response r3 = Inr (RJson rd3)" and "is_envelope rd3 items3" and "length items3 < 40"
  shows "get_all_packages srv url tr =
           Some (Inr (items1 @ items2 @ items3),
                 tr @ [Http (list_request url 1), Http (list_request url 2), Http (list_request url 3)])"
proof -
  let ?t1 = "tr @ [Http (list_request url 1)]"
  let ?t2 = "tr @ [Http (list_request url 1), Http (list_request url 2)]"
  let ?t3 = "tr @ [Http (list_request url 1), Http (list_request url 2), Http (list_request url 3)]"
  have m1: "make_request srv (list_request url 1) tr = (Inr (RJson rd1), ?t1)"
    using assms(1,2) by (rule make_request_ok)
  have m2: "make_request srv (list_request url 2) ?t1 = (Inr (RJson rd2), ?t2)"
    using make_request_ok[of srv ?t1 "list_request url 2" r2 "RJson rd2"] assms(5,6) by simp
  have m3: "make_request srv (list_request url 3) ?t2 = (Inr (RJson rd3), ?t3)"
    using make_request_ok[of srv ?t2 "list_request url 3" r3 "RJson rd3"] assms(9,10) by simp
  have n2: "(1::nat) + 1 = 2" and n3: "(2::nat) + 1 = 3" by simp_all
  have "get_all_packages_from srv url [] 1 tr = get_all_packages_from srv url ([] @ items1) (1 + 1) ?t1"
    using CS_page_step[OF m1 assms(3), of "[]"] assms(4) by (simp del: One_nat_def)
  also have "\<dots> = get_all_packages_from srv url items1 2 ?t1" by (simp only: n2 append_Nil)
  also have "\<dots> = get_all_packages_from srv url (items1 @ items2) (2 + 1) ?t2"
    using CS_page_step[OF m2 assms(7), of items1] assms(8) by (simp del: One_nat_def)
  also have "\<dots> = get_all_packages_from srv url (items1 @ items2) 3 ?t2" by (simp only: n3)
  also have "\<dots> = Some (Inr ((items1 @ items2) @ items3), ?t3)"
    using CS_page_step[OF m3 assms(11), of "items1 @ items2"] assms(12) by simp
  finally show ?thesis by (simp add: get_all_packages_def)
qed

text \<open>
  C4, as the code has it. \<open>TrackingService\<close>: when the first response reports
  \<open>data_total\<close> 85 and \<open>page_size\<close> 40 and the three pages are success envelopes with
  readable items, exactly the requests for the pages 1, 2 and 3 are made, and the result
  is, in page order, the \<open>package_info\<close> of the taxed items of the three \<open>accepted\<close>
  arrays (not the arrays). \<open>CustomsSummary.get_all_packages\<close> does not read the report:
  it goes on after a page of 40 or more packages and stops after a shorter one, so pages
  of 40, 40 and 5 packages make three requests, and the result is the three arrays one
  after the other.
\<close>

theorem three_pages:
  "(srv (tr @ [Http (TS_list_request 1)]) = Inr r1 \<and>
    json_body r1 = Inr rd1 \<and> is_envelope rd1 items1 \<and> reports rd1 85 40 \<and>
    (\<forall>item \<in> set items1. readable_item item) \<and>
    srv (tr @ [Http (TS_list_request 1), Http (TS_list_request 2)]) = Inr r2 \<and>
    json_body r2 = Inr rd2 \<and> is_envelope rd2 items2 \<and>
    (\<forall>item \<in> set items2. readable_item item) \<and>
    srv (tr @ [Http (TS_list_request 1), Http (TS_list_request 2), Http (TS_list_request 3)]) = Inr r3 \<and>
    json_body r3 = Inr rd3 \<and> is_envelope rd3 items3 \<and>
    (\<forall>item \<in> set items3. readable_item item)
    \<longrightarrow> TS_get_packages_with_pending_customs srv tr =
          (Inr (map info_of (filter taxed (items1 @ items2 @ items3))),
           tr @ [Http (TS_list_request 1), Http (TS_list_request 2), Http (TS_list_request 3)]))
   \<and>
   (srv' (tr @ [Http (list_request url 1)]) = Inr q1 \<and>
    read_response q1 = Inr (RJson qd1) \<and> is_envelope qd1 page1 \<and> 40 \<le> length page1 \<and>
    srv' (tr @ [Http (list_request url 1), Http (list_request url 2)]) = Inr q2 \<and>
    read_response q2 = Inr (RJson qd2) \<and> is_envelope qd2 page2 \<and> 40 \<le> length page2 \<and>
    srv' (tr @ [Http (list_request url 1), Http (list_request url 2), Http (list_request url 3)]) = Inr q3 \<and>
    read_response q3 = Inr (RJson qd3) \<and> is_envelope qd3 page3 \<and> length page3 < 40
    \<longrightarrow> get_all_packages srv' url tr =
          Some (Inr (page1 @ page2 @ page3),
                tr @ [Http (list_request url 1), Http (list_request url 2), Http (list_request url 3)]))"
  using TS_three_pages[of srv tr r1 rd1 items1 r2 rd2 items2 r3 rd3 items3]
    CS_three_pages[of srv' tr url q1 qd1 page1 q2 qd2 page2 q3 qd3 page3]
  by blast

lemma scripted_at:
  assumes "drop (calls tr) docs = d # rest"
  shows "scripted docs (tr @ [Http rq]) = Inr (json_response d)"
  using assms by (simp add: scripted_def calls_simps)

lemma envelope_page_is:
  "is_envelope (envelope_page dt ps items) items"
  "reports (envelope_page dt ps items) dt ps"
  "dict_get (envelope_page dt ps items) (asc ''error'') JNull = Inr JNull"
  by (simp_all add: is_envelope_def reports_def envelope_page_def asc_def)

lemma read_envelope: "read_response (json_response (envelope items)) = Inr (RJson (envelope items))"
  by (rule read_json_response[OF envelope_error]) simp

lemma read_envelope_page:
  "read_response (json_response (envelope_page dt ps items)) = Inr (RJson (envelope_page dt ps items))"
  by (rule read_json_response[OF envelope_page_is(3)]) simp

lemma ex_items:
  "readable_item (TS_item (asc ''LX1'') (asc ''CustomsHold'') (asc ''Held''))"
  "readable_item (TS_item (asc ''LX2'') (asc ''Delivered'') (asc ''Delivered''))"
  "\<not> taxed (TS_item (asc ''LX2'') (asc ''Delivered'') (asc ''Delivered''))"
  by code_simp+

theorem three_pages_witness:
  "TS_get_packages_with_pending_customs
     (scripted [envelope_page 85 40 [TS_item (asc ''LX1'') (asc ''CustomsHold'') (asc ''Held''),
                                     TS_item (asc ''LX2'') (asc ''Delivered'') (asc ''Delivered'')],
                envelope [TS_item (asc ''LX2'') (asc ''Delivered'') (asc ''Delivered'')],
                envelope [TS_item (asc ''LX1'') (asc ''CustomsHold'') (asc ''Held'')]]) [] =
     (Inr (map info_of (filter taxed
            ([TS_item (asc ''LX1'') (asc ''CustomsHold'') (asc ''Held''),
              TS_item (asc ''LX2'') (asc ''Delivered'') (asc ''Delivered'')]
             @ [TS_item (asc ''LX2'') (asc ''Delivered'') (asc ''Delivered'')]
             @ [TS_item (asc ''LX1'') (asc ''CustomsHold'') (asc ''Held'')]))),
      [Http (TS_list_request 1), Http (TS_list_request 2), Http (TS_list_request 3)])
   \<and> get_all_packages
     (scripted [envelope (replicate 40 (JStr (asc ''p''))),
                envelope (replicate 40 (JStr (asc ''q''))),
                envelope (replicate 5 (JStr (asc ''r'')))]) [] [] =
     Some (Inr (replicate 40 (JStr (asc ''p'')) @ replicate 40 (JStr (asc ''q''))
                @ replicate 5 (JStr (asc ''r''))),
           [Http (list_request [] 1), Http (list_request [] 2), Http (list_request [] 3)])"
proof -
  let ?a = "TS_item (asc ''LX1'') (asc ''CustomsHold'') (asc ''Held'')"
  let ?b = "TS_item (asc ''LX2'') (asc ''Delivered'') (asc ''Delivered'')"
  let ?d1 = "envelope_page 85 40 [?a, ?b]"
  let ?d2 = "envelope [?b]"
  let ?d3 = "envelope [?a]"
  let ?srv = "scripted [?d1, ?d2, ?d3]"
  let ?e1 = "envelope (replicate 40 (JStr (asc ''p'')))"
  let ?e2 = "envelope (replicate 40 (JStr (asc ''q'')))"
  let ?e3 = "envelope (replicate 5 (JStr (asc ''r'')))"
  let ?srv' = "scripted [?e1, ?e2, ?e3]"
  have s: "?srv ([] @ [Http (TS_list_request 1)]) = Inr (json_response ?d1)"
    "?srv ([] @ [Http (TS_list_request 1), Http (TS_list_request 2)]) = Inr (json_response ?d2)"
    "?srv ([] @ [Http (TS_list_request 1), Http (TS_list_request 2), Http (TS_list_request 3)])
       = Inr (json_response ?d3)"
    by (simp_all add: scripted_def calls_simps)
  have s': "?srv' ([] @ [Http (list_request [] 1)]) = Inr (json_response ?e1)"
    "?srv' ([] @ [Http (list_request [] 1), Http (list_request [] 2)]) = Inr (json_response ?e2)"
    "?srv' ([] @ [Http (list_request [] 1), Http (list_request [] 2), Http (list_request [] 3)])
       = Inr (json_response ?e3)"
    by (simp_all add: scripted_def calls_simps)
  have r: "\<forall>item \<in> set [?a, ?b]. readable_item item" "\<forall>item \<in> set [?b]. readable_item item"
    "\<forall>item \<in> set [?a]. readable_item item"
    using ex_items(1,2) by simp_all
  have l: "40 \<le> length (replicate 40 (JStr (asc ''p'')))" "40 \<le> length (replicate 40 (JStr (asc ''q'')))"
    "length (replicate 5 (JStr (asc ''r''))) < 40"
    by simp_all
  note w = three_pages[where srv = ?srv and tr = "[]" and ?r1.0 = "json_response ?d1"
      and ?rd1.0 = ?d1 and ?items1.0 = "[?a, ?b]" and ?r2.0 = "json_response ?d2" and ?rd2.0 = ?d2
      and ?items2.0 = "[?b]" and ?r3.0 = "json_response ?d3" and ?rd3.0 = ?d3 and ?items3.0 = "[?a]"
      and srv' = ?srv' and url = "[]" and ?q1.0 = "json_response ?e1" and ?qd1.0 = ?e1
      and ?page1.0 = "replicate 40 (JStr (asc ''p''))" and ?q2.0 = "json_response ?e2" and ?qd2.0 = ?e2
      and ?page2.0 = "replicate 40 (JStr (asc ''q''))" and ?q3.0 = "json_response ?e3" and ?qd3.0 = ?e3
      and ?page3.0 = "replicate 5 (JStr (asc ''r''))"]
  have "TS_get_packages_with_pending_customs ?srv [] =
     (Inr (map info_of (filter taxed ([?a, ?b] @ [?b] @ [?a]))),
      [] @ [Http (TS_list_request 1), Http (TS_list_request 2), Http (TS_list_request 3)])"
    using w s r json_body_response envelope_is envelope_page_is(1,2) by blast
  moreover have "get_all_packages ?srv' [] [] =
     Some (Inr (replicate 40 (JStr (asc ''p'')) @ replicate 40 (JStr (asc ''q''))
                @ replicate 5 (JStr (asc ''r''))),
           [] @ [Http (list_request [] 1), Http (list_request [] 2), Http (list_request [] 3)])"
    using w s' l read_envelope envelope_is by blast
  ultimately show ?thesis by (simp only: append_Nil simp_thms)
qed

text \<open>
  A provider that reports 85 and 40 and sends one untaxed item on every page:
  \<open>TrackingService\<close> makes three requests and returns the empty list, not the three
  arrays; \<open>get_all_packages\<close> stops after the first request.
\<close>

theorem three_pages_counterexample:
  "reports (envelope_page 85 40 [TS_item (asc ''LX2'') (asc ''Delivered'') (asc ''Delivered'')]) 85 40
   \<and> TS_get_packages_with_pending_customs
       (scripted [envelope_page 85 40 [TS_item (asc ''LX2'') (asc ''Delivered'') (asc ''Delivered'')],
                  envelope [TS_item (asc ''LX2'') (asc ''Delivered'') (asc ''Delivered'')],
                  envelope [TS_item (asc ''LX2'') (asc ''Delivered'') (asc ''Delivered'')]]) [] =
       (Inr [], [Http (TS_list_request 1), Http (TS_list_request 2), Http (TS_list_request 3)])
   \<and> get_all_packages
       (scripted [envelope_page 85 40 [TS_item (asc ''LX2'') (asc ''Delivered'') (asc ''Delivered'')],
                  envelope [TS_item (asc ''LX2'') (asc ''Delivered'') (asc ''Delivered'')],
                  envelope [TS_item (asc ''LX2'') (asc ''Delivered'') (asc ''Delivered'')]]) [] [] =
       Some (Inr [TS_item (asc ''LX2'') (asc ''Delivered'') (asc ''Delivered'')],
             [Http (list_request [] 1)])"
proof -
  let ?b = "TS_item (asc ''LX2'') (asc ''Delivered'') (asc ''Delivered'')"
  let ?d1 = "envelope_page 85 40 [?b]"
  let ?d2 = "envelope [?b]"
  let ?srv = "scripted [?d1, ?d2, ?d2]"
  have s: "?srv ([] @ [Http (TS_list_request 1)]) = Inr (json_response ?d1)"
    "?srv ([] @ [Http (TS_list_request 1), Http (TS_list_request 2)]) = Inr (json_response ?d2)"
    "?srv ([] @ [Http (TS_list_request 1), Http (TS_list_request 2), Http (TS_list_request 3)])
       = Inr (json_response ?d2)"
    by (simp_all add: scripted_def calls_simps)
  have r: "\<forall>item \<in> set [?b]. readable_item item"
    using ex_items(2) by simp
  have "TS_get_packages_with_pending_customs ?srv [] =
     (Inr (map info_of (filter taxed ([?b] @ [?b] @ [?b]))),
      [] @ [Http (TS_list_request 1), Http (TS_list_request 2), Http (TS_list_request 3)])"
    by (rule TS_three_pages[OF s(1) json_body_response envelope_page_is(1,2) r
          s(2) json_body_response envelope_is r s(3) json_body_response envelope_is r])
  then have a: "TS_get_packages_with_pending_customs ?srv [] =
     (Inr [], [Http (TS_list_request 1), Http (TS_list_request 2), Http (TS_list_request 3)])"
    using ex_items(3) by simp
  have m: "make_request ?srv (list_request [] 1) [] = (Inr (RJson ?d1), [] @ [Http (list_request [] 1)])"
    by (rule scripted_request[OF _ envelope_page_is(3)]) (simp_all add: calls_simps)
  have b: "get_all_packages ?srv [] [] = Some (Inr [?b], [Http (list_request [] 1)])"
    using CS_page_step[OF m envelope_page_is(1), of "[]"] by (simp add: get_all_packages_def)
  show ?thesis using a b envelope_page_is(2) by blast
qed

subsection \<open>The senders\<close>

lemma WA_send_message_True:
  "fst (WA_send_message cfg srv phone_number message tr) =
     (\<exists>r rd v. srv (tr @ [Http (WA_send_request cfg phone_number message)]) = Inr r \<and>
        json_body r = Inr rd \<and> truthy rd \<and>
        dict_get rd (asc ''error'') JNull = Inr v \<and> eq_False v)"
  by (auto simp: WA_send_message_def http_def split: sum.splits)

lemma WA_send_message_once:
  "snd (WA_send_message cfg srv phone_number message tr) =
     tr @ [Http (WA_send_request cfg phone_number message)]
       @ (if fst (WA_send_message cfg srv phone_number message tr) then [Sleep 3] else [])"
  by (auto simp: WA_send_message_def http_def split: sum.splits)

lemma attempts_all_fail:
  assumes "\<forall>t. srv t = Inr r" and "read_response r = Inl e"
  shows "make_request srv rq tr = (Inl e, tr @ [Http rq, Sleep 1, Http rq, Sleep 1, Http rq])"
  using assms by (simp add: make_request_def max_retries_def numeral_3_eq_3 http_def retry_delay_def)

lemma read_rejection:
  assumes "content_type r = Some ct" and "sublist (asc ''application/json'') ct"
    and "json_body r = Inr (JObj kvs)" and "map_of kvs (asc ''error'') = Some err" and "truthy err"
  shows "read_response r =
           Inl (ValueError (ApiError (case_option JNull id (map_of kvs (asc ''message'')))))"
  using assms by (simp add: read_response_def split: option.splits)

lemma CS_send_rejected:
  assumes "missing_config env = []"
    and "clean_number uni (the (TECHNICAL_DEPT_NUMBER env)) = Inr n"
    and "\<forall>t. srv t = Inr r"
    and "content_type r = Some ct" and "sublist (asc ''application/json'') ct"
    and "json_body r = Inr (JObj kvs)" and "map_of kvs (asc ''error'') = Some err" and "truthy err"
  shows "CS_send_whatsapp_message uni env srv message tr =
           (Inl (ValueError (ApiError (case_option JNull id (map_of kvs (asc ''message''))))),
            tr @ [Http (send_request env n message), Sleep 1,
                  Http (send_request env n message), Sleep 1,
                  Http (send_request env n message)])"
  using assms(1,2) attempts_all_fail[OF assms(3) read_rejection[OF assms(4-8)]]
  by (simp add: CS_send_whatsapp_message_def)

text \<open>
  C8, as the code has it. \<open>WhatsAppService.send_message\<close> returns \<open>True\<close> exactly when
  the one call gives a response whose JSON is truthy and has an \<open>error\<close> entry equal to
  \<open>False\<close> (for Python \<open>0\<close> is equal to \<open>False\<close> too); in every other case it returns
  \<open>False\<close>, and it raises nothing. It makes that one call only, without any retry, and
  sleeps three seconds after a success. \<open>CustomsSummary.send_whatsapp_message\<close> sends
  through \<open>make_request\<close>: a gateway that answers with a JSON whose \<open>error\<close> is truthy
  is asked three times, one second apart, and then the \<open>ValueError\<close> is raised to the
  caller.
\<close>

theorem senders:
  "fst (WA_send_message cfg srv phone_number message tr) =
     (\<exists>r rd v. srv (tr @ [Http (WA_send_request cfg phone_number message)]) = Inr r \<and>
        json_body r = Inr rd \<and> truthy rd \<and>
        dict_get rd (asc ''error'') JNull = Inr v \<and> eq_False v)
   \<and> snd (WA_send_message cfg srv phone_number message tr) =
     tr @ [Http (WA_send_request cfg phone_number message)]
       @ (if fst (WA_send_message cfg srv phone_number message tr) then [Sleep 3] else [])
   \<and> (missing_config env = [] \<and>
      clean_number uni (the (TECHNICAL_DEPT_NUMBER env)) = Inr n \<and>
      (\<forall>t. gateway t = Inr g) \<and>
      content_type g = Some ct \<and> sublist (asc ''application/json'') ct \<and>
      json_body g = Inr (JObj kvs) \<and> map_of kvs (asc ''error'') = Some err \<and> truthy err
      \<longrightarrow> CS_send_whatsapp_message uni env gateway message tr =
           (Inl (ValueError (ApiError (case_option JNull id (map_of kvs (asc ''message''))))),
            tr @ [Http (send_request env n message), Sleep 1,
                  Http (send_request env n message), Sleep 1,
                  Http (send_request env n message)]))"
  using WA_send_message_True[of cfg srv phone_number message tr]
    WA_send_message_once[of cfg srv phone_number message tr]
    CS_send_rejected[of env uni n gateway g ct kvs err message tr]
  by blast

lemma ex_rejection:
  "content_type (json_response rejection) = Some (asc ''application/json'')"
  "json_body (json_response rejection) =
     Inr (JObj [(asc ''error'', JBool True), (asc ''message'', JStr (asc ''rejected''))])"
  "map_of [(asc ''error'', JBool True), (asc ''message'', JStr (asc ''rejected''))] (asc ''error'')
     = Some (JBool True)"
  "map_of [(asc ''error'', JBool True), (asc ''message'', JStr (asc ''rejected''))] (asc ''message'')
     = Some (JStr (asc ''rejected''))"
  by (simp_all add: json_response_def rejection_def asc_def)

lemma ex_env:
  "missing_config (example_env (asc ''11999998888'')) = []"
  "clean_number uni (the (TECHNICAL_DEPT_NUMBER (example_env (asc ''11999998888'')))) = Inr (asc ''5511999998888'')"
  by (simp_all add: missing_config_def example_env_def clean_number_def asc_def str_isdigit_def)

theorem senders_witness:
  "CS_send_whatsapp_message example_digits (example_env (asc ''11999998888'')) (always rejection) (asc ''hello'') [] =
     (Inl (ValueError (ApiError (JStr (asc ''rejected'')))),
      [Http (send_request (example_env (asc ''11999998888'')) (asc ''5511999998888'') (asc ''hello'')), Sleep 1,
       Http (send_request (example_env (asc ''11999998888'')) (asc ''5511999998888'') (asc ''hello'')), Sleep 1,
       Http (send_request (example_env (asc ''11999998888'')) (asc ''5511999998888'') (asc ''hello''))])"
proof -
  have a: "\<forall>t. always rejection t = Inr (json_response rejection)"
    by (simp add: always_def)
  have sl: "sublist (asc ''application/json'') (asc ''application/json'')"
    by simp
  have "CS_send_whatsapp_message example_digits (example_env (asc ''11999998888'')) (always rejection) (asc ''hello'') [] =
     (Inl (ValueError (ApiError (case_option JNull id
        (map_of [(asc ''error'', JBool True), (asc ''message'', JStr (asc ''rejected''))] (asc ''message''))))),
      [] @ [Http (send_request (example_env (asc ''11999998888'')) (asc ''5511999998888'') (asc ''hello'')), Sleep 1,
       Http (send_request (example_env (asc ''11999998888'')) (asc ''5511999998888'') (asc ''hello'')), Sleep 1,
       Http (send_request (example_env (asc ''11999998888'')) (asc ''5511999998888'') (asc ''hello''))])"
  proof (rule senders[where uni = example_digits and env = "example_env (asc ''11999998888'')" and n = "asc ''5511999998888''"
        and gateway = "always rejection" and g = "json_response rejection"
        and ct = "asc ''application/json''"
        and kvs = "[(asc ''error'', JBool True), (asc ''message'', JStr (asc ''rejected''))]"
        and err = "JBool True" and message = "asc ''hello''" and tr = "[]",
        THEN conjunct2, THEN conjunct2, rule_format])
    show "missing_config (example_env (asc ''11999998888'')) = [] \<and>
      clean_number example_digits (the (TECHNICAL_DEPT_NUMBER (example_env (asc ''11999998888'')))) = Inr (asc ''5511999998888'') \<and>
      (\<forall>t. always rejection t = Inr (json_response rejection)) \<and>
      content_type (json_response rejection) = Some (asc ''application/json'') \<and>
      sublist (asc ''application/json'') (asc ''application/json'') \<and>
      json_body (json_response rejection) =
        Inr (JObj [(asc ''error'', JBool True), (asc ''message'', JStr (asc ''rejected''))]) \<and>
      map_of [(asc ''error'', JBool True), (asc ''message'', JStr (asc ''rejected''))] (asc ''error'')
        = Some (JBool True) \<and>
      truthy (JBool True)"
      by (intro conjI a ex_env ex_rejection(1,2,3) sl) simp
  qed
  then show ?thesis
    by (simp only: ex_rejection(4) append_Nil option.case id_apply)
qed

text \<open>
  With a transport that always fails \<open>send_message\<close> makes one call, not three; and on a
  gateway's rejection \<open>send_whatsapp_message\<close> raises.
\<close>

theorem senders_counterexample:
  "WA_send_message example_cfg (flaky 3) (asc ''5511999998888'') (asc ''hello'') [] =
     (False, [Http (WA_send_request example_cfg (asc ''5511999998888'') (asc ''hello''))])
   \<and> fst (CS_send_whatsapp_message example_digits (example_env (asc ''11999998888'')) (always rejection) (asc ''hello'') [])
       = Inl (ValueError (ApiError (JStr (asc ''rejected''))))"
proof -
  have a: "\<forall>t. always rejection t = Inr (json_response rejection)"
    by (simp add: always_def)
  have sl: "sublist (asc ''application/json'') (asc ''application/json'')"
    by simp
  have "WA_send_message example_cfg (flaky 3) (asc ''5511999998888'') (asc ''hello'') [] =
     (False, [Http (WA_send_request example_cfg (asc ''5511999998888'') (asc ''hello''))])"
    by (simp add: WA_send_message_def http_def flaky_def)
  moreover have "fst (CS_send_whatsapp_message example_digits (example_env (asc ''11999998888'')) (always rejection) (asc ''hello'') [])
       = Inl (ValueError (ApiError (JStr (asc ''rejected''))))"
    using CS_send_rejected[OF ex_env(1) ex_env(2)[where uni = example_digits] a ex_rejection(1) sl
        ex_rejection(2,3), of "asc ''hello''" "[]"]
    by (simp only: ex_rejection(4) option.case id_apply fst_conv truthy.simps simp_thms)
  ultimately show ?thesis by blast
qed

subsection \<open>The daily job\<close>

text \<open>
  C9, as the code has it. In the job of src/automations/daily-summary an error of any
  stage is raised again to the caller: an error of the fetch (the classification is its
  last step), of the formatter, or of the sender ends the job with that error, and no
  request follows the failing stage: there is no failure notification. In the job of
  \<open>python/customs_summary.py\<close> the handler's only action is one call of \<open>send\<close> with the
  fixed failure text, and the job ends as that call ends.
\<close>

theorem job_error:
  "(CS_get_packages_with_pending_customs srv endpoint tr = Some (Inl e, tr1)
      \<longrightarrow> CS_generate_daily_summary rp uni env srv endpoint tr = Some (Inl e, tr1))
   \<and> (CS_get_packages_with_pending_customs srv endpoint tr = Some (Inr packages, tr1) \<and>
      packages \<noteq> [] \<and> format_summary_message rp packages = Inl e
      \<longrightarrow> CS_generate_daily_summary rp uni env srv endpoint tr = Some (Inl e, tr1))
   \<and> (CS_get_packages_with_pending_customs srv endpoint tr = Some (Inr packages, tr1) \<and>
      packages \<noteq> [] \<and> format_summary_message rp packages = Inr message \<and>
      CS_send_whatsapp_message uni env srv message tr1 = (Inl e, tr2)
      \<longrightarrow> CS_generate_daily_summary rp uni env srv endpoint tr = Some (Inl e, tr2))
   \<and> (TS_get_packages_with_pending_customs srv tr = (Inl e, tr1)
      \<longrightarrow> PY_generate_daily_summary send srv tr = send PY_error_message tr1)
   \<and> (TS_get_packages_with_pending_customs srv tr = (Inr [], tr1) \<and>
      send PY_no_pending_message tr1 = (Inl e, tr2)
      \<longrightarrow> PY_generate_daily_summary send srv tr = send PY_error_message tr2)"
  by (simp add: CS_generate_daily_summary_def PY_generate_daily_summary_def)

text \<open>
  With the call as it is written in \<open>python/customs_summary.py\<close> (one argument for a method
  of two) every run of that job ends with \<open>TypeError\<close>.
\<close>

lemma PY_job_always_raises:
  "PY_generate_daily_summary PY_send_call srv tr =
     (Inl TypeError, snd (TS_get_packages_with_pending_customs srv tr))"
  by (auto simp: PY_generate_daily_summary_def PY_send_call_def split: prod.splits sum.splits)

lemma make_request_flaky3:
  "make_request (flaky 3) rq [] =
     (Inl (RequestException 5), [Http rq, Sleep 1, Http rq, Sleep 1, Http rq])"
  by (simp add: make_request_def max_retries_def numeral_3_eq_3 http_def retry_delay_def flaky_def)

lemma CS_fetch_flaky3:
  "CS_get_packages_with_pending_customs (flaky 3) ep [] =
     Some (Inl (RequestException 5),
           [Http (list_request (ep @ asc ''/track/v2.2/gettracklist'') 1), Sleep 1,
            Http (list_request (ep @ asc ''/track/v2.2/gettracklist'') 1), Sleep 1,
            Http (list_request (ep @ asc ''/track/v2.2/gettracklist'') 1)])"
  unfolding CS_get_packages_with_pending_customs_def get_all_packages_def
  by (subst get_all_packages_from.simps) (simp add: make_request_flaky3)

lemma TS_fetch_flaky3:
  "TS_get_packages_with_pending_customs (flaky 3) [] =
     (Inl (RequestException 1), [Http (TS_list_request 1)])"
  unfolding TS_get_packages_with_pending_customs_def
  by (subst TS_pages.simps) (simp add: http_def flaky_def TS_page_def)

lemma CS_fetch_scripted:
  assumes "track_entry li = Inr te"
  shows "CS_get_packages_with_pending_customs (scripted (envelope [li] # envelope det # rest)) ep [] =
     Some (filter_exn CS_check_taxation det,
           [Http (list_request (ep @ asc ''/track/v2.2/gettracklist'') 1),
            Http (detail_request (ep @ asc ''/track/v2.2/gettrackinfo'') [te])])"
proof -
  let ?srv = "scripted (envelope [li] # envelope det # rest)"
  let ?L = "list_request (ep @ asc ''/track/v2.2/gettracklist'') 1"
  let ?D = "detail_request (ep @ asc ''/track/v2.2/gettrackinfo'') [te]"
  have m1: "make_request ?srv ?L [] = (Inr (RJson (envelope [li])), [] @ [Http ?L])"
    by (rule scripted_request[OF _ envelope_error]) (simp_all add: calls_simps)
  have m2: "make_request ?srv ?D [Http ?L] = (Inr (RJson (envelope det)), [Http ?L] @ [Http ?D])"
    by (rule scripted_request[OF _ envelope_error]) (simp_all add: calls_simps)
  have a: "get_all_packages ?srv (ep @ asc ''/track/v2.2/gettracklist'') [] = Some (Inr [li], [Http ?L])"
    using CS_page_step[OF m1 envelope_is, of "[]"] by (simp add: get_all_packages_def)
  have env: "reply_get (RJson (envelope det)) (asc ''code'') JNull = Inr (JNum 0)"
    "accepted_of (RJson (envelope det)) = Inr (JArr det)"
    by (simp_all add: envelope_def accepted_of_def asc_def)
  have "batches ?srv (ep @ asc ''/track/v2.2/gettrackinfo'') [li] [] [Http ?L] =
          batches ?srv (ep @ asc ''/track/v2.2/gettrackinfo'') [] det ([Http ?L] @ [Http ?D])"
    using assms m2 env by (subst batches.simps) (simp add: ne_zero_def)
  also have "\<dots> = (Inr det, [Http ?L, Http ?D])"
    by (subst batches.simps) simp
  finally have b: "get_detailed_packages ?srv (ep @ asc ''/track/v2.2/gettrackinfo'') [li] [Http ?L] =
          (Inr det, [Http ?L, Http ?D])"
    by (simp add: get_detailed_packages_def)
  show ?thesis
    using a b by (simp add: CS_get_packages_with_pending_customs_def split: sum.splits)
qed

lemma scripted_exhausted:
  assumes "length docs \<le> calls tr"
  shows "make_request (scripted docs) rq tr =
           (Inl (RequestException (calls tr + 3)), tr @ [Http rq, Sleep 1, Http rq, Sleep 1, Http rq])"
  using assms
  by (simp add: make_request_def max_retries_def numeral_3_eq_3 http_def retry_delay_def
      scripted_def calls_def)

lemma TS_fetch_empty:
  "TS_get_packages_with_pending_customs (scripted [envelope []]) [] =
     (Inr [], [Http (TS_list_request 1)])"
proof -
  have t: "TS_total_pages (envelope []) 1 = Inr 1"
    by (simp add: TS_total_pages_def envelope_def asc_def)
  have p: "TS_page 1 1 (Inr (json_response (envelope []))) = Inr (1, map info_of (filter taxed []))"
    by (rule TS_page_ok[OF json_body_response envelope_is]) (simp_all add: t)
  have "TS_pages (scripted [envelope []]) [] 1 1 [] =
          TS_pages (scripted [envelope []]) ([] @ []) (1 + 1) 1 ([] @ [Http (TS_list_request 1)])"
    using p by (intro TS_pages_step) (simp_all add: scripted_def calls_simps)
  also have "\<dots> = (Inr ([] @ []), [] @ [Http (TS_list_request 1)])"
    by (rule TS_pages_done) simp
  finally show ?thesis
    by (simp add: TS_get_packages_with_pending_customs_def)
qed

lemma ex_job_packages:
  "track_entry (list_item (asc ''LX1'')) =
     Inr (JObj [(asc ''number'', JStr (asc ''LX1'')), (asc ''carrier'', JNum 2151)])"
  "filter_exn CS_check_taxation [CS_package_null_event (asc ''LX1'') (asc ''alert'')] =
     Inr [CS_package_null_event (asc ''LX1'') (asc ''alert'')]"
  "format_summary_message plain_repr [CS_package_null_event (asc ''LX1'') (asc ''alert'')] =
     Inl AttributeError"
  "filter_exn CS_check_taxation [CS_package (asc ''LX1'') (asc ''alert'') (asc ''Delivered'')] =
     Inr [CS_package (asc ''LX1'') (asc ''alert'') (asc ''Delivered'')]"
  by code_simp+

lemma format_step_CS_package:
  "format_step rp g (CS_package n s d) =
     Inr (assign_group rp g (JStr n) (str_lower s)
            (foldl (\<lambda>translated (eng, pt). str_replace translated eng pt) d translation_table))"
proof -
  let ?le = "[(asc ''description'', JStr d)]"
  let ?ls = "[(asc ''status'', JStr s)]"
  let ?ti = "[(asc ''latest_event'', JObj ?le), (asc ''latest_status'', JObj ?ls)]"
  let ?p = "[(asc ''number'', JStr n), (asc ''track_info'', JObj ?ti)]"
  have "format_step rp g (JObj ?p) =
          Inr (assign_group rp g (case_option (JStr (asc ''N/A'')) id (map_of ?p (asc ''number'')))
                 (str_lower s)
                 (foldl (\<lambda>translated (eng, pt). str_replace translated eng pt) d translation_table))"
    by (rule format_step_record[where ti = ?ti and le = ?le and ls = ?ls and d = d])
       (simp_all add: asc_def)
  then show ?thesis
    by (simp add: CS_package_def)
qed

lemma ex_job_message:
  "\<exists>m. format_summary_message plain_repr [CS_package (asc ''LX1'') (asc ''alert'') (asc ''Delivered'')] = Inr m"
  by (simp add: format_summary_message_def format_step_CS_package)

theorem job_error_witness:
  "CS_generate_daily_summary plain_repr example_digits (example_env (asc ''11999998888'')) (flaky 3) (asc ''https://api.example'') [] =
     Some (Inl (RequestException 5),
           [Http (list_request (asc ''https://api.example'' @ asc ''/track/v2.2/gettracklist'') 1), Sleep 1,
            Http (list_request (asc ''https://api.example'' @ asc ''/track/v2.2/gettracklist'') 1), Sleep 1,
            Http (list_request (asc ''https://api.example'' @ asc ''/track/v2.2/gettracklist'') 1)])
   \<and> CS_generate_daily_summary plain_repr example_digits (example_env (asc ''11999998888''))
       (scripted [envelope [list_item (asc ''LX1'')],
                  envelope [CS_package_null_event (asc ''LX1'') (asc ''alert'')]])
       (asc ''https://api.example'') [] =
     Some (Inl AttributeError,
           [Http (list_request (asc ''https://api.example'' @ asc ''/track/v2.2/gettracklist'') 1),
            Http (detail_request (asc ''https://api.example'' @ asc ''/track/v2.2/gettrackinfo'')
                   [JObj [(asc ''number'', JStr (asc ''LX1'')), (asc ''carrier'', JNum 2151)]])])
   \<and> (\<exists>tr2. CS_generate_daily_summary plain_repr example_digits (example_env (asc ''11999998888''))
       (scripted [envelope [list_item (asc ''LX1'')],
                  envelope [CS_package (asc ''LX1'') (asc ''alert'') (asc ''Delivered'')]])
       (asc ''https://api.example'') [] = Some (Inl (RequestException 5), tr2))
   \<and> PY_generate_daily_summary recording_send (flaky 3) [] =
       (Inr (), [Http (TS_list_request 1),
                 Http (WA_send_request example_cfg (asc ''5511999998888'') PY_error_message)])
   \<and> PY_generate_daily_summary PY_send_call (scripted [envelope []]) [] =
       (Inl TypeError, [Http (TS_list_request 1)])"
proof -
  let ?ep = "asc ''https://api.example''"
  let ?env = "example_env (asc ''11999998888'')"
  let ?L = "list_request (?ep @ asc ''/track/v2.2/gettracklist'') 1"
  let ?D = "detail_request (?ep @ asc ''/track/v2.2/gettrackinfo'')
              [JObj [(asc ''number'', JStr (asc ''LX1'')), (asc ''carrier'', JNum 2151)]]"
  let ?p2 = "CS_package_null_event (asc ''LX1'') (asc ''alert'')"
  let ?p3 = "CS_package (asc ''LX1'') (asc ''alert'') (asc ''Delivered'')"
  let ?s2 = "scripted [envelope [list_item (asc ''LX1'')], envelope [?p2]]"
  let ?s3 = "scripted [envelope [list_item (asc ''LX1'')], envelope [?p3]]"
  have f2: "CS_get_packages_with_pending_customs ?s2 ?ep [] = Some (Inr [?p2], [Http ?L, Http ?D])"
    using CS_fetch_scripted[OF ex_job_packages(1), of "[?p2]" "[]" ?ep] ex_job_packages(2) by simp
  have f3: "CS_get_packages_with_pending_customs ?s3 ?ep [] = Some (Inr [?p3], [Http ?L, Http ?D])"
    using CS_fetch_scripted[OF ex_job_packages(1), of "[?p3]" "[]" ?ep] ex_job_packages(4) by simp
  have a: "CS_generate_daily_summary plain_repr example_digits ?env (flaky 3) ?ep [] =
     Some (Inl (RequestException 5), [Http ?L, Sleep 1, Http ?L, Sleep 1, Http ?L])"
    using job_error[where uni = example_digits and srv = "flaky 3" and endpoint = ?ep and tr = "[]"
        and e = "RequestException 5" and ?tr1.0 = "[Http ?L, Sleep 1, Http ?L, Sleep 1, Http ?L]"
        and rp = plain_repr and env = ?env]
      CS_fetch_flaky3[of ?ep] by blast
  have b: "CS_generate_daily_summary plain_repr example_digits ?env ?s2 ?ep [] =
     Some (Inl AttributeError, [Http ?L, Http ?D])"
    using job_error[where uni = example_digits and srv = ?s2 and endpoint = ?ep and tr = "[]" and packages = "[?p2]"
        and e = AttributeError and ?tr1.0 = "[Http ?L, Http ?D]" and rp = plain_repr and env = ?env]
      f2 ex_job_packages(3) by blast
  obtain m where m: "format_summary_message plain_repr [?p3] = Inr m"
    using ex_job_message by blast
  obtain n where n: "clean_number example_digits (the (TECHNICAL_DEPT_NUMBER ?env)) = Inr n"
    using ex_env(2) by blast
  have "make_request ?s3 (send_request ?env n m) [Http ?L, Http ?D] =
          (Inl (RequestException (calls [Http ?L, Http ?D] + 3)),
           [Http ?L, Http ?D] @ [Http (send_request ?env n m), Sleep 1,
             Http (send_request ?env n m), Sleep 1, Http (send_request ?env n m)])"
    by (rule scripted_exhausted) (simp add: calls_simps)
  then have snd: "CS_send_whatsapp_message example_digits ?env ?s3 m [Http ?L, Http ?D] =
          (Inl (RequestException 5),
           [Http ?L, Http ?D] @ [Http (send_request ?env n m), Sleep 1,
             Http (send_request ?env n m), Sleep 1, Http (send_request ?env n m)])"
    using ex_env(1) n by (simp add: CS_send_whatsapp_message_def calls_simps)
  have c: "\<exists>tr2. CS_generate_daily_summary plain_repr example_digits ?env ?s3 ?ep [] = Some (Inl (RequestException 5), tr2)"
    using job_error[where uni = example_digits and srv = ?s3 and endpoint = ?ep and tr = "[]" and packages = "[?p3]"
        and e = "RequestException 5" and ?tr1.0 = "[Http ?L, Http ?D]" and rp = plain_repr and env = ?env
        and message = m
        and ?tr2.0 = "[Http ?L, Http ?D] @ [Http (send_request ?env n m), Sleep 1,
             Http (send_request ?env n m), Sleep 1, Http (send_request ?env n m)]"]
      f3 m snd by blast
  have d: "PY_generate_daily_summary recording_send (flaky 3) [] =
             recording_send PY_error_message [Http (TS_list_request 1)]"
    using job_error[where srv = "flaky 3" and tr = "[]" and e = "RequestException 1"
        and ?tr1.0 = "[Http (TS_list_request 1)]" and send = recording_send]
      TS_fetch_flaky3 by blast
  have e: "PY_generate_daily_summary PY_send_call (scripted [envelope []]) [] =
             PY_send_call PY_error_message [Http (TS_list_request 1)]"
    using job_error[where srv = "scripted [envelope []]" and tr = "[]" and e = TypeError
        and ?tr1.0 = "[Http (TS_list_request 1)]" and ?tr2.0 = "[Http (TS_list_request 1)]"
        and send = PY_send_call]
      TS_fetch_empty by (simp add: PY_send_call_def)
  show ?thesis
    using a b c d e by (simp add: recording_send_def PY_send_call_def)
qed

text \<open>
  A transport that always fails: the job of src/automations/daily-summary raises the
  error of the third attempt, and its only requests are the three for the first page.
\<close>

theorem job_error_counterexample:
  "CS_generate_daily_summary plain_repr example_digits (example_env (asc ''11999998888'')) (flaky 3) (asc ''https://api.example'') [] =
     Some (Inl (RequestException 5),
           [Http (list_request (asc ''https://api.example'' @ asc ''/track/v2.2/gettracklist'') 1), Sleep 1,
            Http (list_request (asc ''https://api.example'' @ asc ''/track/v2.2/gettracklist'') 1), Sleep 1,
            Http (list_request (asc ''https://api.example'' @ asc ''/track/v2.2/gettracklist'') 1)])"
  using CS_fetch_flaky3[of "asc ''https://api.example''"]
  by (simp add: CS_generate_daily_summary_def)

end
